theory Spec2Isabelle
  imports Main "HOL-Library.Sublist" "HOL-Library.AList" "HOL-Library.Char_ord"
    "HOL-Library.List_Lexorder"
begin

section \<open>Python exceptions\<close>

text \<open>
  What a statement can raise. The handlers of the scripts distinguish
  \<^verbatim>\<open>ModuleNotFoundError\<close> (a subclass of \<^verbatim>\<open>ImportError\<close>), \<^verbatim>\<open>ImportError\<close> and
  \<^verbatim>\<open>Exception\<close>. \<^verbatim>\<open>SystemExit\<close> and \<^verbatim>\<open>KeyboardInterrupt\<close> derive from
  \<^verbatim>\<open>BaseException\<close> and not from \<^verbatim>\<open>Exception\<close>: a library that ends in
  \<^verbatim>\<open>sys.exit\<close>, or an interrupt from the keyboard while a call is running, raises
  one of them, and no \<^verbatim>\<open>except Exception\<close> clause sees it. \<^verbatim>\<open>UnicodeEncodeError\<close>
  (a \<^verbatim>\<open>ValueError\<close>) is what \<^verbatim>\<open>print\<close> raises for a character the standard output
  cannot encode. \<open>Exception\<close> stands for every other class below \<^verbatim>\<open>Exception\<close>.
  \<open>KeyError\<close> carries the missing key, the others their message.
\<close>

datatype exn =
    ModuleNotFoundError string
  | ImportError string
  | OSError string
  | KeyError string
  | UnicodeEncodeError string
  | Exception string
  | SystemExit string
  | KeyboardInterrupt string

text \<open>\<^verbatim>\<open>str(e)\<close>; for a \<^verbatim>\<open>KeyError\<close> that is the \<^verbatim>\<open>repr\<close> of the key, in quotes.\<close>

fun str_exn :: "exn \<Rightarrow> string" where
  "str_exn (ModuleNotFoundError m) = m"
| "str_exn (ImportError m) = m"
| "str_exn (OSError m) = m"
| "str_exn (KeyError k) = CHR 0x27 # k @ [CHR 0x27]"
| "str_exn (UnicodeEncodeError m) = m"
| "str_exn (Exception m) = m"
| "str_exn (SystemExit m) = m"
| "str_exn (KeyboardInterrupt m) = m"

text \<open>\<^verbatim>\<open>isinstance(e, Exception)\<close>: what an \<^verbatim>\<open>except Exception\<close> clause catches.\<close>

fun is_Exception :: "exn \<Rightarrow> bool" where
  "is_Exception (SystemExit m) = False"
| "is_Exception (KeyboardInterrupt m) = False"
| "is_Exception e = True"

text \<open>\<^verbatim>\<open>except ModuleNotFoundError\<close> and \<^verbatim>\<open>except ImportError\<close>: the class test of a handler.\<close>

fun is_ModuleNotFoundError :: "exn \<Rightarrow> bool" where
  "is_ModuleNotFoundError (ModuleNotFoundError m) = True"
| "is_ModuleNotFoundError e = False"

fun is_ImportError :: "exn \<Rightarrow> bool" where
  "is_ImportError (ModuleNotFoundError m) = True"
| "is_ImportError (ImportError m) = True"
| "is_ImportError e = False"

section \<open>The file system\<close>

text \<open>
  A path is the list of its components below the root, so \<^verbatim>\<open>os.path.join(d, name)\<close> is
  \<open>d @ [name]\<close>, \<^verbatim>\<open>os.path.dirname\<close> is \<open>butlast\<close> and \<^verbatim>\<open>os.path.basename\<close> is
  \<open>last\<close>. The file system is a table from paths to nodes; the root always is a directory.
\<close>

type_synonym path = "string list"

datatype node = File string | Dir

type_synonym filesystem = "(path \<times> node) list"

definition lookup_path :: "filesystem \<Rightarrow> path \<Rightarrow> node option" where
  "lookup_path f p = (if p = [] then Some Dir else map_of f p)"

definition isdir :: "filesystem \<Rightarrow> path \<Rightarrow> bool" where
  "isdir f p = (lookup_path f p = Some Dir)"

definition isfile :: "filesystem \<Rightarrow> path \<Rightarrow> bool" where
  "isfile f p = (case lookup_path f p of Some (File c) \<Rightarrow> True | _ \<Rightarrow> False)"

definition path_exists :: "filesystem \<Rightarrow> path \<Rightarrow> bool" where
  "path_exists f p = (lookup_path f p \<noteq> None)"

definition children :: "filesystem \<Rightarrow> path \<Rightarrow> string list" where
  "children f p = remdups (map (\<lambda>(q, n). last q) (filter (\<lambda>(q, n). q \<noteq> [] \<and> butlast q = p) f))"

definition remove_tree :: "path \<Rightarrow> filesystem \<Rightarrow> filesystem" where
  "remove_tree p f = filter (\<lambda>(q, n). \<not> prefix p q) f"

definition move_tree :: "path \<Rightarrow> path \<Rightarrow> filesystem \<Rightarrow> filesystem" where
  "move_tree src dst f =
     map (\<lambda>(q, n). (dst @ drop (length src) q, n)) (filter (\<lambda>(q, n). prefix src q) f)
     @ remove_tree src (remove_tree dst f)"

definition add_dirs :: "path \<Rightarrow> filesystem \<Rightarrow> filesystem" where
  "add_dirs p f = f @ map (\<lambda>q. (q, Dir)) (filter (\<lambda>q. q \<noteq> [] \<and> map_of f q = None) (prefixes p))"

text \<open>
  What a library leaves in its output directory \<open>d\<close>: entries at paths relative to
  \<open>d\<close>. The entry \<open>([], Dir)\<close> is the creation of \<open>d\<close> itself; \<open>d\<close> is never replaced by
  a file.
\<close>

definition write_under :: "path \<Rightarrow> (path \<times> node) list \<Rightarrow> filesystem \<Rightarrow> filesystem" where
  "write_under d ws f =
     fold (\<lambda>(rel, n) g. if rel = [] \<and> n \<noteq> Dir then g else AList.update (d @ rel) n g) ws f"

text \<open>\<^verbatim>\<open>str.lower\<close> on ASCII letters.\<close>

definition lower_char :: "char \<Rightarrow> char" where
  "lower_char c =
     (let n = (of_char c :: nat) in if 65 \<le> n \<and> n \<le> 90 then char_of (n + 32) else c)"

definition lower :: "string \<Rightarrow> string" where
  "lower s = map lower_char s"

definition show_path :: "path \<Rightarrow> string" where
  "show_path p = concat (map (\<lambda>c. ''/'' @ c) p)"

text \<open>
  The operating-system calls the scripts make. Each call is recorded in the trace; a call
  that changes the file system can be refused by the operating system for a reason the
  table does not show (permissions, a file held open, a full disk): \<open>os_fault\<close> of the
  environment decides that, and gives the message of the \<^verbatim>\<open>OSError\<close> the call raises.
\<close>

datatype syscall =
    Isfile path
  | Isdir path
  | Exists path
  | Listdir path
  | Makedirs path
  | Mkdtemp string
  | Rename path path
  | Rmtree path
  | Remove path
  | Rmdir path
  | OpenWrite path
  | Cleanup path

text \<open>What each call does to the table when the operating system does not refuse it.\<close>

definition makedirs_act :: "path \<Rightarrow> filesystem \<Rightarrow> exn + unit \<times> filesystem" where
  "makedirs_act p f =
     (if list_ex (isfile f) (prefixes p) then Inl (OSError ''FileExistsError'')
      else Inr ((), add_dirs p f))"

definition mkdtemp_act :: "path \<Rightarrow> filesystem \<Rightarrow> exn + path \<times> filesystem" where
  "mkdtemp_act p f =
     (if path_exists f p then Inl (OSError ''FileExistsError'')
      else if \<not> isdir f (butlast p) then Inl (OSError ''FileNotFoundError'')
      else Inr (p, f @ [(p, Dir)]))"

definition rename_act :: "path \<Rightarrow> path \<Rightarrow> filesystem \<Rightarrow> exn + unit \<times> filesystem" where
  "rename_act src dst f =
     (if src = [] \<or> \<not> path_exists f src then Inl (OSError ''FileNotFoundError'')
      else if \<not> isdir f (butlast dst) then Inl (OSError ''FileNotFoundError'')
      else if prefix src dst \<and> src \<noteq> dst then Inl (OSError ''EINVAL'')
      else if src = dst then Inr ((), f)
      else if isdir f dst \<and> (children f dst \<noteq> [] \<or> \<not> isdir f src) then Inl (OSError ''ENOTEMPTY'')
      else if isfile f dst \<and> isdir f src then Inl (OSError ''ENOTDIR'')
      else Inr ((), move_tree src dst f))"

definition rmtree_act :: "path \<Rightarrow> filesystem \<Rightarrow> exn + unit \<times> filesystem" where
  "rmtree_act p f =
     (if p = [] \<or> \<not> isdir f p then Inl (OSError ''NotADirectoryError'')
      else Inr ((), remove_tree p f))"

definition remove_act :: "path \<Rightarrow> filesystem \<Rightarrow> exn + unit \<times> filesystem" where
  "remove_act p f =
     (if \<not> isfile f p then Inl (OSError ''FileNotFoundError'')
      else Inr ((), AList.delete p f))"

definition rmdir_act :: "path \<Rightarrow> filesystem \<Rightarrow> exn + unit \<times> filesystem" where
  "rmdir_act p f =
     (if p = [] \<or> \<not> isdir f p then Inl (OSError ''NotADirectoryError'')
      else if children f p \<noteq> [] then Inl (OSError ''ENOTEMPTY'')
      else Inr ((), AList.delete p f))"

definition listdir_act :: "path \<Rightarrow> filesystem \<Rightarrow> exn + string list \<times> filesystem" where
  "listdir_act p f =
     (if \<not> isdir f p then Inl (OSError ''NotADirectoryError'')
      else Inr (children f p, f))"

definition write_act :: "path \<Rightarrow> string \<Rightarrow> filesystem \<Rightarrow> exn + unit \<times> filesystem" where
  "write_act p c f =
     (if isdir f p then Inl (OSError ''IsADirectoryError'')
      else if \<not> isdir f (butlast p) then Inl (OSError ''FileNotFoundError'')
      else Inr ((), AList.update p (File c) f))"

text \<open>
  Removing a temporary directory: \<^verbatim>\<open>TemporaryDirectory.cleanup()\<close> and
  \<^verbatim>\<open>shutil.rmtree(d, ignore_errors=True)\<close> both remove the tree below the path and
  do not mind a directory that is already gone.
\<close>

definition cleanup_act :: "path \<Rightarrow> filesystem \<Rightarrow> exn + unit \<times> filesystem" where
  "cleanup_act p f = Inr ((), if p = [] then f else remove_tree p f)"

section \<open>Models handled by the scripts\<close>

text \<open>
  An ONNX model as far as \<^verbatim>\<open>simplify_model\<close> reads it: the operator type of every graph
  node and, for every graph input, its name and the dimensions of its declared shape.
  \<^verbatim>\<open>dim.dim_value\<close> is a protobuf \<^verbatim>\<open>oneof\<close> field: it reads as 0 when the dimension is
  symbolic (\<^verbatim>\<open>dim_param\<close>) or not set at all.
\<close>

datatype dimension = DimValue int | DimParam string | DimUnset

fun dim_value :: "dimension \<Rightarrow> int" where
  "dim_value (DimValue v) = v"
| "dim_value (DimParam s) = 0"
| "dim_value DimUnset = 0"

record value_info =
  vi_name :: string
  vi_dims :: "dimension list"

record onnx_model =
  graph_node :: "string list"
  graph_input :: "value_info list"

text \<open>
  A loaded TensorFlow SavedModel as far as the scripts read it: its signatures, and for a
  signature the operator of every node of its graph definition.
\<close>

record concrete_function =
  graph_def_node :: "string list"
  structured_input_signature :: string
  structured_outputs :: string

record tf_module =
  signatures :: "(string \<times> concrete_function) list"

text \<open>The TFLite converter object and the attributes the scripts set on it.\<close>

datatype converter_source = From_saved_model path | From_keras_model

datatype tf_optimize = DEFAULT

datatype tf_dtype = tf_float16

record tflite_converter =
  source :: converter_source
  allow_custom_ops :: bool
  optimizations :: "tf_optimize list"
  supported_types :: "tf_dtype list"

section \<open>The compatibility shim for \<^verbatim>\<open>onnx.mapping\<close>\<close>

datatype tensor_type =
    FLOAT | UINT8 | INT8 | UINT16 | INT16 | INT32 | INT64 | BOOL | FLOAT16 | DOUBLE
  | UINT32 | UINT64 | COMPLEX64 | COMPLEX128 | STRING

datatype np_dtype =
    np_float32 | np_uint8 | np_int8 | np_uint16 | np_int16 | np_int32 | np_int64 | np_bool
  | np_float16 | np_float64 | np_uint32 | np_uint64 | np_complex64 | np_complex128 | np_object

text \<open>
  A Python \<^verbatim>\<open>dict\<close> is an association list in insertion order; storing under a key that
  is present replaces its value in place (\<open>AList.update\<close>). A dict display and a dict
  comprehension store their items from left to right.
\<close>

definition dict_of_items :: "('k \<times> 'v) list \<Rightarrow> ('k \<times> 'v) list" where
  "dict_of_items items = fold (\<lambda>(k, v) d. AList.update k v d) items []"

definition TENSOR_TYPE_TO_NP_TYPE :: "(string \<Rightarrow> bool) \<Rightarrow> (tensor_type \<times> np_dtype) list" where
  "TENSOR_TYPE_TO_NP_TYPE np_hasattr = dict_of_items
     [(FLOAT, np_float32),
      (UINT8, np_uint8),
      (INT8, np_int8),
      (UINT16, np_uint16),
      (INT16, np_int16),
      (INT32, np_int32),
      (INT64, np_int64),
      (BOOL, np_bool),
      (FLOAT16, np_float16),
      (DOUBLE, np_float64),
      (UINT32, if np_hasattr ''uint32'' then np_uint32 else np_uint64),
      (UINT64, np_uint64),
      (COMPLEX64, if np_hasattr ''complex64'' then np_complex64 else np_complex128),
      (COMPLEX128, np_complex128),
      (STRING, np_object)]"

definition NP_TYPE_TO_TENSOR_TYPE :: "(string \<Rightarrow> bool) \<Rightarrow> (np_dtype \<times> tensor_type) list" where
  "NP_TYPE_TO_TENSOR_TYPE np_hasattr =
     dict_of_items (map (\<lambda>(k, v). (v, k)) (TENSOR_TYPE_TO_NP_TYPE np_hasattr))"

record mapping_namespace =
  ns_TENSOR_TYPE_TO_NP_TYPE :: "(tensor_type \<times> np_dtype) list"
  ns_NP_TYPE_TO_TENSOR_TYPE :: "(np_dtype \<times> tensor_type) list"

section \<open>The world and the environment\<close>

text \<open>
  The two characters outside ASCII that \<^verbatim>\<open>simplify_model.py\<close> prints at the head of a
  line: U+2713 and U+26A0.
\<close>

datatype mark = CHECK_MARK | WARNING_SIGN

text \<open>
  What a run can be observed to do: the lines it prints, the modules it imports, the
  library functions it calls and the operating-system calls it makes, in order. Lines
  whose text embeds a number or a list carry it as data. \<open>PrintMarked\<close> is a line that
  starts with a mark. \<open>PrintShape True\<close> is line 70 of \<^verbatim>\<open>simplify_model.py\<close>, which starts
  with the warning sign, \<open>PrintShape False\<close> is line 73, which starts with the check mark,
  and \<open>PrintProblems\<close> is line 53, which starts with the warning sign.
\<close>

datatype event =
    Print string
  | PrintMarked mark string
  | PrintOp string int
  | PrintShape bool string "int list"
  | PrintProblems "string set"
  | PrintOps "string list"
  | Import string
  | Call string
  | Sys syscall

record world =
  fs :: filesystem
  trace :: "event list"
  onnx_mapping :: "mapping_namespace option"

text \<open>
  The environment holds everything that is not code of the repository: the interpreter
  and platform, the operating system, and the third-party libraries. A library call is an
  opaque service of which only "returned" or "raised" is interpreted; a call that writes
  an artifact also yields the entries it leaves below its output directory.
  \<open>stdout_encodes\<close> tells which marks the encoding of the standard output has (UTF-8 has
  both, cp1252 and ASCII have neither). \<open>urlretrieve\<close> either fails before it opens the
  destination, or yields what it copied to the destination and whether the transfer then
  broke.
\<close>

record env =
  abspath :: "string \<Rightarrow> path"
  version_info :: "nat \<times> nat"
  platform_system :: string
  stdout_encodes :: "mark \<Rightarrow> bool"
  os_fault :: "filesystem \<Rightarrow> syscall \<Rightarrow> string option"
  mkdtemp_name :: "filesystem \<Rightarrow> string \<Rightarrow> path"
  import_result :: "mapping_namespace option \<Rightarrow> string \<Rightarrow> exn option"
  np_hasattr :: "string \<Rightarrow> bool"
  onnx2tf_convert :: "filesystem \<Rightarrow> path \<Rightarrow> path \<Rightarrow> exn option \<times> (path \<times> node) list"
  onnx_load :: "filesystem \<Rightarrow> path \<Rightarrow> exn + onnx_model"
  onnx_tf_prepare :: "onnx_model \<Rightarrow> exn option"
  export_graph :: "onnx_model \<Rightarrow> path \<Rightarrow> exn option \<times> (path \<times> node) list"
  from_saved_model :: "filesystem \<Rightarrow> path \<Rightarrow> exn option"
  from_keras_model :: "exn option"
  tflite_convert :: "filesystem \<Rightarrow> tflite_converter \<Rightarrow> exn + string"
  onnxsim_simplify :: "onnx_model \<Rightarrow> exn + onnx_model \<times> bool"
  onnx_serialize :: "onnx_model \<Rightarrow> exn + string"
  hub_load :: "filesystem \<Rightarrow> string \<Rightarrow> exn + tf_module"
  saved_model_save :: "tf_module \<Rightarrow> path \<Rightarrow> exn option \<times> (path \<times> node) list"
  saved_model_load :: "filesystem \<Rightarrow> path \<Rightarrow> exn + tf_module"
  urlretrieve :: "string \<Rightarrow> exn + string \<times> exn option"
  keras_build :: "exn option"

section \<open>Programs: state, exceptions, try/except/finally\<close>

type_synonym 'a io = "world \<Rightarrow> (exn + 'a) \<times> world"

definition ret :: "'a \<Rightarrow> 'a io" where
  "ret x w = (Inr x, w)"

definition raise :: "exn \<Rightarrow> 'a io" where
  "raise e w = (Inl e, w)"

definition bind :: "'a io \<Rightarrow> ('a \<Rightarrow> 'b io) \<Rightarrow> 'b io" where
  "bind m k w = (case m w of (Inl e, w') \<Rightarrow> (Inl e, w') | (Inr x, w') \<Rightarrow> k x w')"

text \<open>
  \<^verbatim>\<open>try: m except Exception as e: h e\<close>. Every handler chain of the scripts ends in
  \<^verbatim>\<open>except Exception\<close> (the clauses before it name subclasses, which \<open>h\<close> tells apart), so
  the handler sees the instances of \<^verbatim>\<open>Exception\<close> and nothing else: \<^verbatim>\<open>SystemExit\<close> and
  \<^verbatim>\<open>KeyboardInterrupt\<close> pass through.
\<close>

definition try_except :: "'a io \<Rightarrow> (exn \<Rightarrow> 'a io) \<Rightarrow> 'a io" where
  "try_except m h w =
     (case m w of
        (Inl e, w') \<Rightarrow> if is_Exception e then h e w' else (Inl e, w')
      | (Inr x, w') \<Rightarrow> (Inr x, w'))"

text \<open>
  \<^verbatim>\<open>try: m finally: fin\<close>: the final block runs on every exit of \<open>m\<close>; the outcome of
  \<open>m\<close> (a value or an exception) stands unless the final block itself raises.
\<close>

definition try_finally :: "'a io \<Rightarrow> unit io \<Rightarrow> 'a io" where
  "try_finally m fin w =
     (case m w of (r, w') \<Rightarrow>
        (case fin w' of (Inl e, w'') \<Rightarrow> (Inl e, w'') | (Inr u, w'') \<Rightarrow> (r, w'')))"

fun foreach :: "'a list \<Rightarrow> ('a \<Rightarrow> unit io) \<Rightarrow> unit io" where
  "foreach [] body = ret ()"
| "foreach (x # xs) body = bind (body x) (\<lambda>u. foreach xs body)"

definition emit :: "event \<Rightarrow> unit io" where
  "emit ev w = (Inr (), w\<lparr>trace := trace w @ [ev]\<rparr>)"

text \<open>
  \<^verbatim>\<open>print\<close> of a line of ASCII literals and of strings the caller or a library gave,
  which the standard output is taken to encode.
\<close>

definition print :: "string \<Rightarrow> unit io" where
  "print s = emit (Print s)"

text \<open>
  \<^verbatim>\<open>print\<close> of a line that starts with a mark: when the standard output cannot encode
  the mark, nothing is written and \<^verbatim>\<open>UnicodeEncodeError\<close> is raised.
\<close>

definition print_marked :: "env \<Rightarrow> mark \<Rightarrow> event \<Rightarrow> unit io" where
  "print_marked env mk ev =
     (if stdout_encodes env mk then emit ev
      else raise (UnicodeEncodeError ''codec cannot encode character''))"

text \<open>A test of the file system (\<^verbatim>\<open>os.path.isfile\<close> and the like): it never raises.\<close>

definition query :: "syscall \<Rightarrow> (filesystem \<Rightarrow> 'a) \<Rightarrow> 'a io" where
  "query c q w = (Inr (q (fs w)), w\<lparr>trace := trace w @ [Sys c]\<rparr>)"

text \<open>A call that may change the file system, or be refused.\<close>

definition syscall :: "env \<Rightarrow> syscall \<Rightarrow> (filesystem \<Rightarrow> exn + 'a \<times> filesystem) \<Rightarrow> 'a io" where
  "syscall env c act w =
     (let w1 = w\<lparr>trace := trace w @ [Sys c]\<rparr> in
      case os_fault env (fs w) c of
        Some msg \<Rightarrow> (Inl (OSError msg), w1)
      | None \<Rightarrow> (case act (fs w) of
                  Inl e \<Rightarrow> (Inl e, w1)
                | Inr (x, f') \<Rightarrow> (Inr x, w1\<lparr>fs := f'\<rparr>)))"

definition os_path_isfile :: "path \<Rightarrow> bool io" where
  "os_path_isfile p = query (Isfile p) (\<lambda>f. isfile f p)"

definition os_path_isdir :: "path \<Rightarrow> bool io" where
  "os_path_isdir p = query (Isdir p) (\<lambda>f. isdir f p)"

definition os_path_exists :: "path \<Rightarrow> bool io" where
  "os_path_exists p = query (Exists p) (\<lambda>f. path_exists f p)"

definition os_makedirs :: "env \<Rightarrow> path \<Rightarrow> unit io" where
  "os_makedirs env p = syscall env (Makedirs p) (makedirs_act p)"

definition os_rename :: "env \<Rightarrow> path \<Rightarrow> path \<Rightarrow> unit io" where
  "os_rename env src dst = syscall env (Rename src dst) (rename_act src dst)"

definition os_listdir :: "env \<Rightarrow> path \<Rightarrow> string list io" where
  "os_listdir env p = syscall env (Listdir p) (listdir_act p)"

definition shutil_rmtree :: "env \<Rightarrow> path \<Rightarrow> unit io" where
  "shutil_rmtree env p = syscall env (Rmtree p) (rmtree_act p)"

definition os_remove :: "env \<Rightarrow> path \<Rightarrow> unit io" where
  "os_remove env p = syscall env (Remove p) (remove_act p)"

definition os_rmdir :: "env \<Rightarrow> path \<Rightarrow> unit io" where
  "os_rmdir env p = syscall env (Rmdir p) (rmdir_act p)"

definition write_file :: "env \<Rightarrow> path \<Rightarrow> string \<Rightarrow> unit io" where
  "write_file env p c = syscall env (OpenWrite p) (write_act p c)"

definition tempfile_mkdtemp :: "env \<Rightarrow> string \<Rightarrow> path io" where
  "tempfile_mkdtemp env pre w =
     syscall env (Mkdtemp pre) (mkdtemp_act (mkdtemp_name env (fs w) pre)) w"

definition tmpdir_cleanup :: "env \<Rightarrow> path \<Rightarrow> unit io" where
  "tmpdir_cleanup env p = syscall env (Cleanup p) (cleanup_act p)"

text \<open>\<^verbatim>\<open>shutil.rmtree(p, ignore_errors=True)\<close>: a refusal is swallowed inside the call.\<close>

definition shutil_rmtree_ignore_errors :: "env \<Rightarrow> path \<Rightarrow> unit io" where
  "shutil_rmtree_ignore_errors env p =
     try_except (syscall env (Rmtree p) (cleanup_act p)) (\<lambda>e. ret ())"

text \<open>An import statement: recorded, then it binds the name or raises.\<close>

definition import_module :: "env \<Rightarrow> string \<Rightarrow> unit io" where
  "import_module env name w =
     (case import_result env (onnx_mapping w) name of
        None \<Rightarrow> (Inr (), w\<lparr>trace := trace w @ [Import name]\<rparr>)
      | Some e \<Rightarrow> (Inl e, w\<lparr>trace := trace w @ [Import name]\<rparr>))"

text \<open>A library call with no result of interest: recorded, then it returns or raises.\<close>

definition call_lib :: "string \<Rightarrow> exn option \<Rightarrow> unit io" where
  "call_lib name outcome w =
     (case outcome of
        None \<Rightarrow> (Inr (), w\<lparr>trace := trace w @ [Call name]\<rparr>)
      | Some e \<Rightarrow> (Inl e, w\<lparr>trace := trace w @ [Call name]\<rparr>))"

text \<open>A library call that reads the file system and returns a value or raises.\<close>

definition call_read :: "string \<Rightarrow> (filesystem \<Rightarrow> exn + 'a) \<Rightarrow> 'a io" where
  "call_read name f w = (f (fs w), w\<lparr>trace := trace w @ [Call name]\<rparr>)"

text \<open>
  A library call that writes an artifact below \<open>d\<close>: what it wrote stays there also when
  the call then raises.
\<close>

definition call_write :: "string \<Rightarrow> path \<Rightarrow> (filesystem \<Rightarrow> exn option \<times> (path \<times> node) list) \<Rightarrow> unit io" where
  "call_write name d f w =
     (case f (fs w) of (outcome, ws) \<Rightarrow>
        (case outcome of None \<Rightarrow> Inr () | Some e \<Rightarrow> Inl e,
         w\<lparr>trace := trace w @ [Call name], fs := write_under d ws (fs w)\<rparr>))"


definition set_onnx_mapping :: "mapping_namespace \<Rightarrow> unit io" where
  "set_onnx_mapping ns w = (Inr (), w\<lparr>onnx_mapping := Some ns\<rparr>)"

section \<open>tools/onnx_to_tflite.py\<close>

text \<open>
  Lines 47 to 62: when onnx2tf left a \<^verbatim>\<open>saved_model\<close> directory below \<open>out_dir\<close>, its
  content is moved up one level and everything else below \<open>out_dir\<close> is removed.
\<close>

definition reroot_saved_model :: "env \<Rightarrow> path \<Rightarrow> path \<Rightarrow> unit io" where
  "reroot_saved_model env out_dir saved_model_dir =
     (let tmp = out_dir @ [''__tmp_saved_model__''] in
      bind (os_rename env saved_model_dir tmp) (\<lambda>u.
      bind (os_listdir env out_dir) (\<lambda>names.
      bind (foreach names (\<lambda>name.
              let p = out_dir @ [name] in
              bind (os_path_isdir p) (\<lambda>d.
              bind (if d then ret True else os_path_isfile p) (\<lambda>d_or_f.
              if d_or_f \<and> last p \<noteq> ''__tmp_saved_model__''
              then bind (os_path_isdir p) (\<lambda>d'.
                     if d' then shutil_rmtree env p else os_remove env p)
              else ret ())))) (\<lambda>u.
      bind (os_listdir env tmp) (\<lambda>names'.
      bind (foreach names' (\<lambda>name. os_rename env (tmp @ [name]) (out_dir @ [name]))) (\<lambda>u.
      os_rmdir env tmp))))))"

text \<open>Lines 34 to 64: the body of the outer \<^verbatim>\<open>try\<close>, which ends in \<^verbatim>\<open>return\<close>.\<close>

definition try_onnx2tf :: "env \<Rightarrow> path \<Rightarrow> path \<Rightarrow> unit io" where
  "try_onnx2tf env onnx_path out_dir =
     bind (try_except (import_module env ''onnx2tf'')
             (\<lambda>e. raise (ModuleNotFoundError (str_exn e)))) (\<lambda>u.
     bind (print ''[INFO] Using onnx2tf to convert ONNX -> SavedModel ...'') (\<lambda>u.
     bind (call_write ''onnx2tf.convert'' out_dir
             (\<lambda>f. onnx2tf_convert env f onnx_path out_dir)) (\<lambda>u.
     let saved_model_dir = out_dir @ [''saved_model''] in
     bind (os_path_isdir saved_model_dir) (\<lambda>b.
     bind (if b then reroot_saved_model env out_dir saved_model_dir else ret ()) (\<lambda>u.
     print (''[OK] SavedModel written to: '' @ show_path out_dir))))))"

text \<open>Lines 76 to 100: the shim installed when \<^verbatim>\<open>from onnx import mapping\<close> raises.\<close>

definition install_mapping_shim :: "env \<Rightarrow> unit io" where
  "install_mapping_shim env =
     bind (import_module env ''types'') (\<lambda>u.
     bind (import_module env ''numpy'') (\<lambda>u.
     bind (import_module env ''onnx.TensorProto'') (\<lambda>u.
     set_onnx_mapping
       \<lparr>ns_TENSOR_TYPE_TO_NP_TYPE = TENSOR_TYPE_TO_NP_TYPE (np_hasattr env),
        ns_NP_TYPE_TO_TENSOR_TYPE = NP_TYPE_TO_TENSOR_TYPE (np_hasattr env)\<rparr>)))"

text \<open>Lines 70 to 107: the fallback through onnx-tf.\<close>

definition fallback_onnx_tf :: "env \<Rightarrow> path \<Rightarrow> path \<Rightarrow> unit io" where
  "fallback_onnx_tf env onnx_path out_dir =
     bind (import_module env ''onnx'') (\<lambda>u.
     bind (try_except (import_module env ''onnx.mapping'')
             (\<lambda>e. install_mapping_shim env)) (\<lambda>u.
     bind (import_module env ''onnx_tf.backend'') (\<lambda>u.
     bind (print ''[INFO] Using onnx-tf to convert ONNX -> SavedModel ...'') (\<lambda>u.
     bind (call_read ''onnx.load'' (\<lambda>f. onnx_load env f onnx_path)) (\<lambda>model.
     bind (call_lib ''onnx_tf.backend.prepare'' (onnx_tf_prepare env model)) (\<lambda>u.
     bind (call_write ''tf_rep.export_graph'' out_dir
             (\<lambda>f. export_graph env model out_dir)) (\<lambda>u.
     print (''[OK] SavedModel written to: '' @ show_path out_dir))))))))"

text \<open>
  Lines 28 to 107. Neither handler of the outer \<^verbatim>\<open>try\<close> returns: after its message,
  control falls through to the fallback.
\<close>

definition convert_onnx_to_saved_model :: "env \<Rightarrow> path \<Rightarrow> path \<Rightarrow> unit io" where
  "convert_onnx_to_saved_model env onnx_path out_dir =
     try_except (try_onnx2tf env onnx_path out_dir)
       (\<lambda>e. bind (if is_ModuleNotFoundError e
                  then print ''[INFO] onnx2tf unavailable (or missing optional deps). Falling back to onnx-tf ...''
                  else print (''[WARN] onnx2tf failed: '' @ str_exn e @ ''. Falling back to onnx-tf ...''))
             (\<lambda>u. fallback_onnx_tf env onnx_path out_dir))"

definition convert_saved_model_to_tflite ::
  "env \<Rightarrow> path \<Rightarrow> path \<Rightarrow> bool \<Rightarrow> bool \<Rightarrow> bool \<Rightarrow> unit io" where
  "convert_saved_model_to_tflite env saved_model_dir tflite_out fp16 optimize allow_custom =
     bind (import_module env ''tensorflow'') (\<lambda>u.
     bind (print ''[INFO] Converting SavedModel -> TFLite ...'') (\<lambda>u.
     bind (call_read ''tf.lite.TFLiteConverter.from_saved_model''
             (\<lambda>f. case from_saved_model env f saved_model_dir of
                     Some e \<Rightarrow> Inl e
                   | None \<Rightarrow> Inr \<lparr>source = From_saved_model saved_model_dir,
                                  allow_custom_ops = False, optimizations = [],
                                  supported_types = []\<rparr>)) (\<lambda>converter.
     let converter = (if allow_custom then converter\<lparr>allow_custom_ops := True\<rparr> else converter);
         converter = (if optimize then converter\<lparr>optimizations := [DEFAULT]\<rparr> else converter);
         converter = (if fp16 then converter\<lparr>supported_types := [tf_float16]\<rparr> else converter)
     in
     bind (call_read ''converter.convert'' (\<lambda>f. tflite_convert env f converter)) (\<lambda>tflite_model.
     bind (os_makedirs env (butlast tflite_out)) (\<lambda>u.
     bind (write_file env tflite_out tflite_model) (\<lambda>u.
     print (''[OK] TFLite model written to: '' @ show_path tflite_out)))))))"

text \<open>The parsed command line of the full converter (\<^verbatim>\<open>argparse\<close> has accepted it).\<close>

record args =
  arg_onnx :: string
  arg_out :: string
  arg_saved_model_dir :: "string option"
  arg_fp16 :: bool
  arg_optimize :: bool
  arg_allow_custom_ops :: bool

definition preflight :: "env \<Rightarrow> unit io" where
  "preflight env =
     bind (if fst (version_info env) = 3 \<and> 12 \<le> snd (version_info env)
           then print ''[WARN] Detected Python 3.12 or later. For best compatibility, use Python 3.10.''
           else ret ()) (\<lambda>u.
     if lower (platform_system env) = ''windows''
     then print ''[INFO] Running on Windows; long path or antivirus may slow conversion.''
     else ret ())"

text \<open>
  Lines 163 to 184. \<open>tmpdir\<close> is the temporary directory when the SavedModel is not kept.
  The \<^verbatim>\<open>try\<close> yields the exit code of its \<^verbatim>\<open>return\<close>, or nothing when control
  falls through to \<^verbatim>\<open>return 0\<close>.
\<close>

definition run_conversion :: "env \<Rightarrow> args \<Rightarrow> path \<Rightarrow> path \<Rightarrow> path \<Rightarrow> path option \<Rightarrow> int io" where
  "run_conversion env a onnx_path tflite_out saved_model_dir tmpdir =
     bind (try_finally
             (try_except
                (bind (os_makedirs env saved_model_dir) (\<lambda>u.
                 bind (convert_onnx_to_saved_model env onnx_path saved_model_dir) (\<lambda>u.
                 bind (convert_saved_model_to_tflite env saved_model_dir tflite_out
                         (arg_fp16 a) (arg_optimize a) (arg_allow_custom_ops a)) (\<lambda>u.
                 bind (print ''[DONE] Conversion complete.'') (\<lambda>u.
                 ret None)))))
                (\<lambda>e. bind (print (''[ERR] Conversion failed: '' @ str_exn e)) (\<lambda>u. ret (Some 2))))
             (case tmpdir of
                None \<Rightarrow> ret ()
              | Some d \<Rightarrow> try_except (tmpdir_cleanup env d) (\<lambda>e. ret ())))
          (\<lambda>r. case r of Some code \<Rightarrow> ret code | None \<Rightarrow> ret 0)"

definition main :: "env \<Rightarrow> args \<Rightarrow> int io" where
  "main env a =
     bind (preflight env) (\<lambda>u.
     let onnx_path = abspath env (arg_onnx a);
         tflite_out = abspath env (arg_out a)
     in
     bind (os_path_isfile onnx_path) (\<lambda>found.
     if \<not> found
     then bind (print (''[ERR] ONNX file not found: '' @ show_path onnx_path)) (\<lambda>u. ret 1)
     else
       (case arg_saved_model_dir a of
          Some d \<Rightarrow>
            if d \<noteq> []
            then (let saved_model_dir = abspath env d in
                  bind (os_makedirs env saved_model_dir) (\<lambda>u.
                  run_conversion env a onnx_path tflite_out saved_model_dir None))
            else bind (tempfile_mkdtemp env ''onnx2tflite_'') (\<lambda>tmp.
                 run_conversion env a onnx_path tflite_out (tmp @ [''saved_model'']) (Some tmp))
        | None \<Rightarrow>
            bind (tempfile_mkdtemp env ''onnx2tflite_'') (\<lambda>tmp.
            run_conversion env a onnx_path tflite_out (tmp @ [''saved_model'']) (Some tmp)))))"

section \<open>tools/onnx_to_tflite_simple.py\<close>

text \<open>Lines 34 to 47: the inner \<^verbatim>\<open>try\<close>; both handlers end in \<^verbatim>\<open>return 2\<close>.\<close>

definition simple_onnx2tf :: "env \<Rightarrow> string \<Rightarrow> path \<Rightarrow> int option io" where
  "simple_onnx2tf env onnx_path tmpdir =
     try_except
       (bind (import_module env ''onnx2tf'') (\<lambda>u.
        bind (call_write ''onnx2tf.convert'' tmpdir
                (\<lambda>f. onnx2tf_convert env f (abspath env onnx_path) tmpdir)) (\<lambda>u.
        ret None)))
       (\<lambda>e. if is_ImportError e
            then bind (print (''[ERR] onnx2tf not installed or missing dependencies: '' @ str_exn e)) (\<lambda>u.
                 bind (print ''Install with: pip install onnx2tf onnx-graphsurgeon psutil'') (\<lambda>u.
                 ret (Some 2)))
            else bind (print (''[ERR] onnx2tf conversion failed: '' @ str_exn e)) (\<lambda>u.
                 ret (Some 2)))"

text \<open>Lines 55 to 69: the second step, which no handler guards.\<close>

definition simple_tflite :: "env \<Rightarrow> path \<Rightarrow> string \<Rightarrow> int io" where
  "simple_tflite env saved_model_dir tflite_path =
     bind (print ''[2/2] Converting SavedModel -> TFLite...'') (\<lambda>u.
     bind (import_module env ''tensorflow'') (\<lambda>u.
     bind (call_read ''tf.lite.TFLiteConverter.from_saved_model''
             (\<lambda>f. case from_saved_model env f saved_model_dir of
                     Some e \<Rightarrow> Inl e
                   | None \<Rightarrow> Inr \<lparr>source = From_saved_model saved_model_dir,
                                  allow_custom_ops = False, optimizations = [],
                                  supported_types = []\<rparr>)) (\<lambda>converter.
     let converter = converter\<lparr>supported_types := [tf_float16]\<rparr>;
         converter = converter\<lparr>optimizations := [DEFAULT]\<rparr>
     in
     bind (call_read ''converter.convert'' (\<lambda>f. tflite_convert env f converter)) (\<lambda>tflite_model.
     bind (os_makedirs env (butlast (abspath env tflite_path))) (\<lambda>u.
     bind (write_file env (abspath env tflite_path) tflite_model) (\<lambda>u.
     bind (print (''[OK] TFLite model written to: '' @ tflite_path)) (\<lambda>u.
     bind (print ''     Size in MB'') (\<lambda>u.
     ret 0))))))))"

text \<open>Lines 33 to 69: the body of the \<^verbatim>\<open>try\<close> whose \<^verbatim>\<open>finally\<close> removes the directory.\<close>

definition simple_pipeline :: "env \<Rightarrow> string \<Rightarrow> string \<Rightarrow> path \<Rightarrow> int io" where
  "simple_pipeline env onnx_path tflite_path tmpdir =
     bind (simple_onnx2tf env onnx_path tmpdir) (\<lambda>r.
     case r of
       Some code \<Rightarrow> ret code
     | None \<Rightarrow>
         (let saved_model_dir = tmpdir @ [''saved_model''] in
          bind (os_path_isdir saved_model_dir) (\<lambda>b.
          if \<not> b
          then bind (print (''[ERR] SavedModel not found at '' @ show_path saved_model_dir)) (\<lambda>u. ret 2)
          else simple_tflite env saved_model_dir tflite_path)))"

text \<open>\<open>argv\<close> is \<^verbatim>\<open>sys.argv\<close>: the script name, then the positional arguments.\<close>

definition main_simple :: "env \<Rightarrow> string list \<Rightarrow> int io" where
  "main_simple env argv =
     (if length argv < 3
      then bind (print ''Usage: python onnx_to_tflite_simple.py <input.onnx> <output.tflite>'') (\<lambda>u. ret 1)
      else
        (let onnx_path = argv ! 1;
             tflite_path = argv ! 2
         in
         bind (os_path_isfile (abspath env onnx_path)) (\<lambda>found.
         if \<not> found
         then bind (print (''[ERR] ONNX file not found: '' @ onnx_path)) (\<lambda>u. ret 1)
         else
           bind (print ''[1/2] Converting ONNX -> SavedModel with onnx2tf...'') (\<lambda>u.
           bind (tempfile_mkdtemp env ''onnx2tflite_'') (\<lambda>tmpdir.
           try_finally (simple_pipeline env onnx_path tflite_path tmpdir)
             (shutil_rmtree_ignore_errors env tmpdir))))))"


section \<open>tools/simplify_model.py\<close>

definition problematic_ops :: "string set" where
  "problematic_ops =
     {''GridSample'', ''NonMaxSuppression'', ''ScatterElements'', ''OneHot'', ''TopK'', ''RoiAlign''}"

text \<open>
  Lines 24 to 40: the optional simplification pass. The value is the model the rest of
  the function works on: the simplified one when the pass returned, its check holds and
  line 33 was printed (the assignment of line 34 follows it), the loaded one otherwise.
\<close>

definition run_onnxsim :: "env \<Rightarrow> onnx_model \<Rightarrow> onnx_model io" where
  "run_onnxsim env model =
     try_except
       (bind (import_module env ''onnxsim'') (\<lambda>u.
        bind (print ''Running onnx-simplifier...'') (\<lambda>u.
        bind (call_read ''onnxsim.simplify'' (\<lambda>f. onnxsim_simplify env model)) (\<lambda>(model_simp, check).
        if check
        then bind (print_marked env CHECK_MARK
                     (PrintMarked CHECK_MARK '' Model simplified successfully'')) (\<lambda>u.
             ret model_simp)
        else bind (print_marked env WARNING_SIGN
                     (PrintMarked WARNING_SIGN '' Simplification may have issues, check output carefully'')) (\<lambda>u.
             ret model)))))
       (\<lambda>e. if is_ImportError e
            then bind (print_marked env WARNING_SIGN
                         (PrintMarked WARNING_SIGN
                            '' onnx-simplifier not installed. Install with: pip install onnx-simplifier'')) (\<lambda>u.
                 ret model)
            else bind (print_marked env WARNING_SIGN
                         (PrintMarked WARNING_SIGN ('' Simplification failed: '' @ str_exn e))) (\<lambda>u.
                 ret model))"

text \<open>Lines 43 to 62: the scan for operators of the denylist.\<close>

definition analyze_operations :: "env \<Rightarrow> onnx_model \<Rightarrow> unit io" where
  "analyze_operations env model =
     bind (print ''Analyzing operations...'') (\<lambda>u.
     let ops = set (graph_node model);
         found_problems = ops \<inter> problematic_ops
     in
     bind (if found_problems \<noteq> {}
           then bind (print_marked env WARNING_SIGN (PrintProblems found_problems)) (\<lambda>u.
                bind (print ''To fix GridSample:'') (\<lambda>u.
                bind (print ''1. Re-export model from PyTorch with torch.nn.functional.grid_sample'') (\<lambda>u.
                bind (print ''   replaced by torch.nn.functional.affine_grid + grid_sample decomposition'') (\<lambda>u.
                bind (print ''2. Or use a different interpolation method in the source model'') (\<lambda>u.
                print ''Current model will fall back to CPU for these operations.'')))))
           else print_marked env CHECK_MARK
                  (PrintMarked CHECK_MARK '' No known problematic operations found'')) (\<lambda>u.
     emit (PrintOps (sorted_list_of_set ops))))"

text \<open>Lines 65 to 73: the shape of every graph input, with -1 for a dimension that is not positive.\<close>

definition declared_shape :: "value_info \<Rightarrow> int list" where
  "declared_shape input_tensor =
     map (\<lambda>dim. if dim_value dim > 0 then dim_value dim else - 1) (vi_dims input_tensor)"

definition check_input_shapes :: "env \<Rightarrow> onnx_model \<Rightarrow> unit io" where
  "check_input_shapes env model =
     bind (print ''Checking input shapes...'') (\<lambda>u.
     foreach (graph_input model) (\<lambda>input_tensor.
       let shape = declared_shape input_tensor in
       if - 1 \<in> set shape
       then bind (print_marked env WARNING_SIGN (PrintShape True (vi_name input_tensor) shape)) (\<lambda>u.
            print ''  Consider fixing input dimensions for better hardware support'')
       else print_marked env CHECK_MARK (PrintShape False (vi_name input_tensor) shape)))"

text \<open>\<^verbatim>\<open>onnx.save(model, output_path)\<close>: serialise, then write the file.\<close>

definition onnx_save :: "env \<Rightarrow> onnx_model \<Rightarrow> string \<Rightarrow> unit io" where
  "onnx_save env model output_path =
     bind (call_read ''onnx.save'' (\<lambda>f. onnx_serialize env model)) (\<lambda>bytes.
     write_file env (abspath env output_path) bytes)"

definition simplify_model :: "env \<Rightarrow> string \<Rightarrow> string \<Rightarrow> onnx_model io" where
  "simplify_model env input_path output_path =
     bind (print (''Loading model: '' @ input_path)) (\<lambda>u.
     bind (call_read ''onnx.load'' (\<lambda>f. onnx_load env f (abspath env input_path))) (\<lambda>model.
     bind (run_onnxsim env model) (\<lambda>model.
     bind (analyze_operations env model) (\<lambda>u.
     bind (check_input_shapes env model) (\<lambda>u.
     bind (print (''Saving to: '' @ output_path)) (\<lambda>u.
     bind (onnx_save env model output_path) (\<lambda>u.
     bind (print_marked env CHECK_MARK (PrintMarked CHECK_MARK '' Done!'')) (\<lambda>u.
     ret model))))))))"

section \<open>tools/download_film.py\<close>

text \<open>\<^verbatim>\<open>d[key]\<close> on a dict: the value, or \<^verbatim>\<open>KeyError\<close>.\<close>

definition dict_getitem :: "(string \<times> 'v) list \<Rightarrow> string \<Rightarrow> 'v io" where
  "dict_getitem d key = (case map_of d key of None \<Rightarrow> raise (KeyError key) | Some v \<Rightarrow> ret v)"



text \<open>
  Lines 59 to 61: the tally. \<^verbatim>\<open>op_types[node.op] = op_types.get(node.op, 0) + 1\<close> for
  every node, in the order of the graph definition.
\<close>

definition count_ops :: "string list \<Rightarrow> (string \<times> int) list" where
  "count_ops graph_nodes =
     fold (\<lambda>op op_types.
             AList.update op ((case map_of op_types op of None \<Rightarrow> 0 | Some c \<Rightarrow> c) + 1) op_types)
       graph_nodes []"

text \<open>Line 66: \<^verbatim>\<open>sorted(op_types.items(), key=lambda x: -x[1])[:20]\<close>; the sort is stable.\<close>

definition top_operators :: "(string \<times> int) list \<Rightarrow> (string \<times> int) list" where
  "top_operators op_types = take 20 (sort_key (\<lambda>x. - snd x) op_types)"

text \<open>Lines 70 to 76: operators reported as risky, by exact name, by prefix or by substring.\<close>

definition problematic_operators :: "(string \<times> int) list \<Rightarrow> string list" where
  "problematic_operators op_types =
     (if ''ResampleGrad'' \<in> set (map fst op_types) \<or> ''Resample'' \<in> set (map fst op_types)
      then [''Resample/ResampleGrad (custom op)''] else [])
     @ filter (\<lambda>op. prefix ''Custom'' op \<or> sublist ''Grid'' op) (map fst op_types)"

definition report_operators :: "string list \<Rightarrow> (string \<times> int) list \<Rightarrow> unit io" where
  "report_operators graph_nodes op_types =
     bind (print ''[INFO] Number of nodes of the model'') (\<lambda>u.
     bind (print ''[INFO] Number of unique operator types'') (\<lambda>u.
     bind (print ''[INFO] Top 20 operators:'') (\<lambda>u.
     bind (foreach (top_operators op_types) (\<lambda>(op, count). emit (PrintOp op count))) (\<lambda>u.
     let problematic = problematic_operators op_types in
     if problematic \<noteq> []
     then bind (print ''[WARN] Potentially unsupported operators for NNAPI:'') (\<lambda>u.
          foreach problematic (\<lambda>op. print (''  - '' @ op)))
     else bind (print ''[INFO] No obvious GridSample or custom ops detected'') (\<lambda>u.
          print ''[INFO] Model uses standard TF ops (Conv2D, DepthwiseConv2D, etc.)'')))))"

definition inspect_saved_model :: "env \<Rightarrow> string \<Rightarrow> (string \<times> int) list option io" where
  "inspect_saved_model env model_path =
     try_except
       (bind (import_module env ''tensorflow'') (\<lambda>u.
        bind (print (''[INFO] Inspecting SavedModel at '' @ model_path)) (\<lambda>u.
        bind (call_read ''tf.saved_model.load''
                (\<lambda>f. saved_model_load env f (abspath env model_path))) (\<lambda>model.
        bind (dict_getitem (signatures model) ''serving_default'') (\<lambda>concrete_func.
        let op_types = count_ops (graph_def_node concrete_func) in
        bind (report_operators (graph_def_node concrete_func) op_types) (\<lambda>u.
        ret (Some op_types)))))))
       (\<lambda>e. bind (print (''[ERR] Inspection failed: '' @ str_exn e)) (\<lambda>u. ret None))"

section \<open>tools/download_optical_flow.py\<close>






section \<open>Example environments\<close>

text \<open>
  A small world (a temporary directory and one ONNX file below the root) and two
  environments: one where every library is installed and works, one where no optional
  module can be imported.
\<close>

definition demo_world :: world where
  "demo_world =
     \<lparr>fs = [([''tmp''], Dir), ([''model.onnx''], File ''onnx-bytes'')],
      trace = [],
      onnx_mapping = None\<rparr>"

definition demo_model :: onnx_model where
  "demo_model =
     \<lparr>graph_node = [''Conv'', ''GridSample'', ''Conv''],
      graph_input = [\<lparr>vi_name = ''img0'', vi_dims = [DimValue 1, DimValue 3, DimParam ''h'', DimValue (- 1)]\<rparr>,
                     \<lparr>vi_name = ''img1'', vi_dims = [DimValue 1, DimValue 3, DimValue 256, DimValue 256]\<rparr>]\<rparr>"

definition demo_module :: tf_module where
  "demo_module =
     \<lparr>signatures = [(''serving_default'',
         \<lparr>graph_def_node = [''Conv2D'', ''Conv2D'', ''Relu''],
          structured_input_signature = ''x0, x1, time'',
          structured_outputs = ''image''\<rparr>)]\<rparr>"

definition env_installed :: env where
  "env_installed =
     \<lparr>abspath = (\<lambda>s. [s]),
      version_info = (3, 10),
      platform_system = ''Linux'',
      stdout_encodes = (\<lambda>mk. True),
      os_fault = (\<lambda>f c. None),
      mkdtemp_name = (\<lambda>f pre. [''tmp'', pre @ ''0'']),
      import_result = (\<lambda>ns name. None),
      np_hasattr = (\<lambda>a. True),
      onnx2tf_convert = (\<lambda>f onnx_path out_dir.
         (None, [([''saved_model''], Dir), ([''saved_model'', ''saved_model.pb''], File ''graph'')])),
      onnx_load = (\<lambda>f p. if isfile f p then Inr demo_model else Inl (OSError ''FileNotFoundError'')),
      onnx_tf_prepare = (\<lambda>m. None),
      export_graph = (\<lambda>m out_dir. (None, [([''saved_model.pb''], File ''graph'')])),
      from_saved_model = (\<lambda>f d. if isfile f (d @ [''saved_model.pb'']) then None
                                  else Some (OSError ''SavedModel file does not exist'')),
      from_keras_model = None,
      tflite_convert = (\<lambda>f c. Inr ''tflite-bytes''),
      onnxsim_simplify = (\<lambda>m. Inr (m, True)),
      onnx_serialize = (\<lambda>m. Inr ''onnx-bytes''),
      hub_load = (\<lambda>f url. Inr demo_module),
      saved_model_save = (\<lambda>m d. (None, [([], Dir), ([''saved_model.pb''], File ''graph'')])),
      saved_model_load = (\<lambda>f p. if isdir f p then Inr demo_module else Inl (OSError ''SavedModel file does not exist'')),
      urlretrieve = (\<lambda>url. Inr (''checkpoint'', None)),
      keras_build = None\<rparr>"

definition env_missing :: env where
  "env_missing =
     env_installed\<lparr>import_result := (\<lambda>ns name. Some (ModuleNotFoundError (''No module named '' @ name)))\<rparr>"


definition demo_args :: args where
  "demo_args =
     \<lparr>arg_onnx = ''model.onnx'', arg_out = ''model.tflite'', arg_saved_model_dir = None,
      arg_fp16 = True, arg_optimize = True, arg_allow_custom_ops = False\<rparr>"

text \<open>An operating system that refuses to remove a directory tree (a file is still open).\<close>

definition refuse_removal :: "filesystem \<Rightarrow> syscall \<Rightarrow> string option" where
  "refuse_removal f c =
     (case c of
        Cleanup p \<Rightarrow> Some ''PermissionError''
      | Rmtree p \<Rightarrow> Some ''PermissionError''
      | _ \<Rightarrow> None)"

text \<open>The same refusal, of \<^verbatim>\<open>TemporaryDirectory.cleanup\<close> alone and of \<^verbatim>\<open>shutil.rmtree\<close> alone.\<close>

definition refuse_cleanup :: "filesystem \<Rightarrow> syscall \<Rightarrow> string option" where
  "refuse_cleanup f c = (case c of Cleanup p \<Rightarrow> Some ''PermissionError'' | _ \<Rightarrow> None)"

definition refuse_rmtree :: "filesystem \<Rightarrow> syscall \<Rightarrow> string option" where
  "refuse_rmtree f c = (case c of Rmtree p \<Rightarrow> Some ''PermissionError'' | _ \<Rightarrow> None)"






definition env_cp1252 :: env where
  "env_cp1252 = env_missing\<lparr>stdout_encodes := (\<lambda>mk. False)\<rparr>"



definition demo_args_keep :: args where
  "demo_args_keep = demo_args\<lparr>arg_saved_model_dir := Some ''sm''\<rparr>"

section \<open>Predicates used in the proofs\<close>

text \<open>
  \<open>emits_only S m\<close>: a run of \<open>m\<close> only appends to the trace, and every event it appends
  satisfies \<open>S\<close>. \<open>keeps J m\<close>: a run of \<open>m\<close> from a file system with property \<open>J\<close> ends in
  one with property \<open>J\<close>, whether it returns or raises.
\<close>

definition emits_only :: "(event \<Rightarrow> bool) \<Rightarrow> 'a io \<Rightarrow> bool" where
  "emits_only S m = (\<forall>w. \<exists>evs. trace (snd (m w)) = trace w @ evs \<and> list_all S evs)"

definition keeps :: "(filesystem \<Rightarrow> bool) \<Rightarrow> 'a io \<Rightarrow> bool" where
  "keeps J m = (\<forall>w. J (fs w) \<longrightarrow> J (fs (snd (m w))))"


text \<open>\<open>removes P ev\<close>: the event is a call that removes or moves away \<open>P\<close> or a directory above it.\<close>

fun removes :: "path \<Rightarrow> event \<Rightarrow> bool" where
  "removes P (Sys (Cleanup q)) = prefix q P"
| "removes P (Sys (Rmtree q)) = prefix q P"
| "removes P (Sys (Remove q)) = prefix q P"
| "removes P (Sys (Rmdir q)) = prefix q P"
| "removes P (Sys (Rename q q')) = prefix q P"
| "removes P ev = False"

text \<open>The operator lines and the shape lines among the events of a run, in order.\<close>

fun printed_ops :: "event list \<Rightarrow> (string \<times> int) list" where
  "printed_ops [] = []"
| "printed_ops (PrintOp op c # evs) = (op, c) # printed_ops evs"
| "printed_ops (ev # evs) = printed_ops evs"

fun printed_shapes :: "event list \<Rightarrow> (bool \<times> string \<times> int list) list" where
  "printed_shapes [] = []"
| "printed_shapes (PrintShape dynamic name shape # evs) = (dynamic, name, shape) # printed_shapes evs"
| "printed_shapes (ev # evs) = printed_shapes evs"





section \<open>Reasoning about programs\<close>

named_theorems emits

named_theorems keep

subsection \<open>What a program appends to the trace\<close>

lemma emits_onlyD:
  "emits_only S m \<Longrightarrow> m w = (r, w') \<Longrightarrow> \<exists>evs. trace w' = trace w @ evs \<and> list_all S evs"
  unfolding emits_only_def by (metis snd_conv)

lemma emits_ret [emits]: "emits_only S (ret x)"
  by (simp add: emits_only_def ret_def)

lemma emits_raise [emits]: "emits_only S (raise e)"
  by (simp add: emits_only_def raise_def)

lemma emits_bind [emits]:
  assumes "emits_only S m" and "\<And>x. emits_only S (k x)"
  shows "emits_only S (bind m k)"
  unfolding emits_only_def
proof
  fix w
  obtain r w1 where m: "m w = (r, w1)" by (cases "m w")
  from emits_onlyD[OF assms(1) m] obtain e1 where e1: "trace w1 = trace w @ e1" "list_all S e1"
    by blast
  show "\<exists>evs. trace (snd (bind m k w)) = trace w @ evs \<and> list_all S evs"
  proof (cases r)
    case (Inl e)
    with m e1 show ?thesis by (auto simp: bind_def)
  next
    case (Inr x)
    from assms(2)[of x] obtain e2 where "trace (snd (k x w1)) = trace w1 @ e2" "list_all S e2"
      unfolding emits_only_def by blast
    with m e1 Inr show ?thesis by (auto simp: bind_def)
  qed
qed

lemma emits_try_except [emits]:
  assumes "emits_only S m" and "\<And>e. emits_only S (h e)"
  shows "emits_only S (try_except m h)"
  unfolding emits_only_def
proof
  fix w
  obtain r w1 where m: "m w = (r, w1)" by (cases "m w")
  from emits_onlyD[OF assms(1) m] obtain e1 where e1: "trace w1 = trace w @ e1" "list_all S e1"
    by blast
  show "\<exists>evs. trace (snd (try_except m h w)) = trace w @ evs \<and> list_all S evs"
  proof (cases r)
    case (Inr x)
    with m e1 show ?thesis by (auto simp: try_except_def)
  next
    case (Inl e)
    from assms(2)[of e] obtain e2 where "trace (snd (h e w1)) = trace w1 @ e2" "list_all S e2"
      unfolding emits_only_def by blast
    with m e1 Inl show ?thesis by (auto simp: try_except_def)
  qed
qed

lemma emits_try_finally [emits]:
  assumes "emits_only S m" and "emits_only S fin"
  shows "emits_only S (try_finally m fin)"
  unfolding emits_only_def
proof
  fix w
  obtain r w1 where m: "m w = (r, w1)" by (cases "m w")
  from emits_onlyD[OF assms(1) m] obtain e1 where e1: "trace w1 = trace w @ e1" "list_all S e1"
    by blast
  obtain r2 w2 where f: "fin w1 = (r2, w2)" by (cases "fin w1")
  from emits_onlyD[OF assms(2) f] obtain e2 where e2: "trace w2 = trace w1 @ e2" "list_all S e2"
    by blast
  show "\<exists>evs. trace (snd (try_finally m fin w)) = trace w @ evs \<and> list_all S evs"
    using m f e1 e2 by (cases r2) (auto simp: try_finally_def)
qed

lemma emits_foreach [emits]:
  assumes "\<And>x. emits_only S (body x)"
  shows "emits_only S (foreach xs body)"
  by (induction xs) (auto intro: emits_ret emits_bind assms)

lemma emits_if [emits]:
  "(c \<Longrightarrow> emits_only S a) \<Longrightarrow> (\<not> c \<Longrightarrow> emits_only S b) \<Longrightarrow> emits_only S (if c then a else b)"
  by simp

lemma emits_case_prod [emits]:
  "(\<And>a b. emits_only S (f a b)) \<Longrightarrow> emits_only S (case p of (a, b) \<Rightarrow> f a b)"
  by (cases p) simp

lemma emits_case_option [emits]:
  "emits_only S a \<Longrightarrow> (\<And>x. emits_only S (f x)) \<Longrightarrow>
   emits_only S (case v of None \<Rightarrow> a | Some x \<Rightarrow> f x)"
  by (cases v) simp_all

lemma emits_emit [emits]: "S ev \<Longrightarrow> emits_only S (emit ev)"
  by (simp add: emits_only_def emit_def)

lemma emits_print [emits]: "S (Print s) \<Longrightarrow> emits_only S (print s)"
  by (simp add: print_def emits_emit)

lemma emits_print_marked [emits]: "S ev \<Longrightarrow> emits_only S (print_marked env mk ev)"
  by (simp add: print_marked_def emits_emit emits_raise)

lemma emits_query [emits]: "S (Sys c) \<Longrightarrow> emits_only S (query c q)"
  by (simp add: emits_only_def query_def)

lemma emits_syscall [emits]: "S (Sys c) \<Longrightarrow> emits_only S (syscall env c act)"
  by (auto simp add: emits_only_def syscall_def Let_def split: option.splits sum.splits)

lemma emits_import [emits]: "S (Import n) \<Longrightarrow> emits_only S (import_module env n)"
  by (auto simp add: emits_only_def import_module_def split: option.splits)

lemma emits_call_lib [emits]: "S (Call n) \<Longrightarrow> emits_only S (call_lib n outcome)"
  by (auto simp add: emits_only_def call_lib_def split: option.splits)

lemma emits_call_read [emits]: "S (Call n) \<Longrightarrow> emits_only S (call_read n f)"
  by (auto simp add: emits_only_def call_read_def)

lemma emits_call_write [emits]: "S (Call n) \<Longrightarrow> emits_only S (call_write n d f)"
  by (auto simp add: emits_only_def call_write_def split: prod.splits)

lemma emits_set_onnx_mapping [emits]: "emits_only S (set_onnx_mapping ns)"
  by (simp add: emits_only_def set_onnx_mapping_def)

lemma emits_mkdtemp [emits]: "S (Sys (Mkdtemp pre)) \<Longrightarrow> emits_only S (tempfile_mkdtemp env pre)"
  by (auto simp add: emits_only_def tempfile_mkdtemp_def syscall_def Let_def
      split: option.splits sum.splits)

lemmas fs_calls = os_path_isfile_def os_path_isdir_def os_path_exists_def os_makedirs_def
  os_rename_def os_listdir_def shutil_rmtree_def os_remove_def os_rmdir_def write_file_def
  tmpdir_cleanup_def shutil_rmtree_ignore_errors_def

subsection \<open>What a program keeps of the file system\<close>

lemma keeps_ret [keep]: "keeps J (ret x)"
  by (simp add: keeps_def ret_def)

lemma keeps_raise [keep]: "keeps J (raise e)"
  by (simp add: keeps_def raise_def)

lemma keeps_bind [keep]:
  assumes "keeps J m" and "\<And>x. keeps J (k x)"
  shows "keeps J (bind m k)"
  unfolding keeps_def
proof (intro allI impI)
  fix w :: world assume J: "J (fs w)"
  obtain r w1 where m: "m w = (r, w1)" by (cases "m w")
  with assms(1) J have J1: "J (fs w1)" unfolding keeps_def by (metis snd_conv)
  show "J (fs (snd (bind m k w)))"
  proof (cases r)
    case (Inl e)
    with m J1 show ?thesis by (simp add: bind_def)
  next
    case (Inr x)
    with assms(2)[of x] J1 m show ?thesis by (simp add: bind_def keeps_def)
  qed
qed

lemma keeps_try_except [keep]:
  assumes "keeps J m" and "\<And>e. keeps J (h e)"
  shows "keeps J (try_except m h)"
  unfolding keeps_def
proof (intro allI impI)
  fix w :: world assume J: "J (fs w)"
  obtain r w1 where m: "m w = (r, w1)" by (cases "m w")
  with assms(1) J have J1: "J (fs w1)" unfolding keeps_def by (metis snd_conv)
  show "J (fs (snd (try_except m h w)))"
  proof (cases r)
    case (Inr x)
    with m J1 show ?thesis by (simp add: try_except_def)
  next
    case (Inl e)
    with assms(2)[of e] J1 m show ?thesis by (simp add: try_except_def keeps_def)
  qed
qed

lemma keeps_try_finally [keep]:
  assumes "keeps J m" and "keeps J fin"
  shows "keeps J (try_finally m fin)"
  unfolding keeps_def
proof (intro allI impI)
  fix w :: world assume J: "J (fs w)"
  obtain r w1 where m: "m w = (r, w1)" by (cases "m w")
  with assms(1) J have J1: "J (fs w1)" unfolding keeps_def by (metis snd_conv)
  obtain r2 w2 where f: "fin w1 = (r2, w2)" by (cases "fin w1")
  with assms(2) J1 have "J (fs w2)" unfolding keeps_def by (metis snd_conv)
  with m f show "J (fs (snd (try_finally m fin w)))"
    by (cases r2) (simp_all add: try_finally_def)
qed

lemma keeps_foreach [keep]:
  assumes "\<And>x. keeps J (body x)"
  shows "keeps J (foreach xs body)"
  by (induction xs) (auto intro: keeps_ret keeps_bind assms)

lemma keeps_if [keep]:
  "(c \<Longrightarrow> keeps J a) \<Longrightarrow> (\<not> c \<Longrightarrow> keeps J b) \<Longrightarrow> keeps J (if c then a else b)"
  by simp

lemma keeps_case_option [keep]:
  "keeps J a \<Longrightarrow> (\<And>x. keeps J (f x)) \<Longrightarrow> keeps J (case v of None \<Rightarrow> a | Some x \<Rightarrow> f x)"
  by (cases v) simp_all

lemma keeps_emit [keep]: "keeps J (emit ev)"
  by (simp add: keeps_def emit_def)

lemma keeps_print [keep]: "keeps J (print s)"
  by (simp add: print_def keeps_emit)

lemma keeps_print_marked [keep]: "keeps J (print_marked env mk ev)"
  by (simp add: print_marked_def keeps_emit keeps_raise)

lemma keeps_query [keep]: "keeps J (query c q)"
  by (simp add: keeps_def query_def)

lemma keeps_import [keep]: "keeps J (import_module env n)"
  by (auto simp add: keeps_def import_module_def split: option.splits)

lemma keeps_call_lib [keep]: "keeps J (call_lib n outcome)"
  by (auto simp add: keeps_def call_lib_def split: option.splits)

lemma keeps_call_read [keep]: "keeps J (call_read n f)"
  by (auto simp add: keeps_def call_read_def)

lemma keeps_set_onnx_mapping [keep]: "keeps J (set_onnx_mapping ns)"
  by (simp add: keeps_def set_onnx_mapping_def)

lemma keeps_syscall:
  assumes "\<And>f x f'. J f \<Longrightarrow> act f = Inr (x, f') \<Longrightarrow> J f'"
  shows "keeps J (syscall env c act)"
  using assms
  by (auto simp add: keeps_def syscall_def Let_def split: option.splits sum.splits)

lemma keeps_call_write:
  assumes "\<And>f ws. J f \<Longrightarrow> J (write_under d ws f)"
  shows "keeps J (call_write n d g)"
  using assms
  by (auto simp add: keeps_def call_write_def split: prod.splits)

lemma keeps_listdir [keep]: "keeps J (os_listdir env p)"
  unfolding os_listdir_def
  by (rule keeps_syscall) (auto simp: listdir_act_def split: if_splits)

subsection \<open>The file system table\<close>

lemma map_of_filter_key:
  "map_of (filter (\<lambda>(k, v). P k) al) k' = (if P k' then map_of al k' else None)"
  by (induction al) auto

lemma map_of_remove_tree:
  "map_of (remove_tree d f) q = (if prefix d q then None else map_of f q)"
  by (simp add: remove_tree_def map_of_filter_key)

lemma not_prefix_snoc [simp]: "\<not> prefix (p @ x # xs) p"
  by (auto simp: prefix_def)

lemma isdir_remove_tree: "\<not> prefix d P \<Longrightarrow> isdir (remove_tree d f) P = isdir f P"
  by (simp add: isdir_def lookup_path_def map_of_remove_tree)

lemma map_of_moved_None:
  "\<not> prefix dst P \<Longrightarrow> map_of (map (\<lambda>(q, n). (dst @ drop (length src) q, n)) al) P = None"
  by (induction al) (auto simp: prefix_def)

lemma isdir_move_tree:
  "\<not> prefix src P \<Longrightarrow> \<not> prefix dst P \<Longrightarrow> isdir (move_tree src dst f) P = isdir f P"
  by (simp add: isdir_def lookup_path_def move_tree_def map_add_def map_of_moved_None
      map_of_remove_tree)

lemma isdir_update: "p \<noteq> P \<Longrightarrow> isdir (AList.update p v f) P = isdir f P"
  by (simp add: isdir_def lookup_path_def update_conv')

lemma isdir_delete: "p \<noteq> P \<Longrightarrow> isdir (AList.delete p f) P = isdir f P"
  by (simp add: isdir_def lookup_path_def delete_conv')

lemma isdir_add_dirs: "isdir f P \<Longrightarrow> isdir (add_dirs p f) P"
  by (auto simp add: isdir_def lookup_path_def add_dirs_def map_add_def split: option.splits)

lemma isdir_write_under: "isdir f P \<Longrightarrow> isdir (write_under P ws f) P"
proof (induction ws arbitrary: f)
  case Nil
  then show ?case by (simp add: write_under_def)
next
  case (Cons a ws)
  obtain rel n where a: "a = (rel, n)" by (cases a)
  have "isdir (if rel = [] \<and> n \<noteq> Dir then f else AList.update (P @ rel) n f) P"
  proof (cases "rel = []")
    case True
    with Cons.prems show ?thesis
      by (auto simp add: isdir_def lookup_path_def update_conv' split: if_splits)
  next
    case False
    with Cons.prems show ?thesis by (simp add: isdir_update)
  qed
  from Cons.IH[OF this] show ?case by (simp add: write_under_def a)
qed


lemma isdir_write_act:
  assumes "isdir f P" and "write_act p c f = Inr (x, f')"
  shows "isdir f' P"
proof -
  from assms have "p \<noteq> P" and "f' = AList.update p (File c) f"
    by (auto simp: write_act_def split: if_splits)
  with assms(1) show ?thesis by (simp add: isdir_update)
qed

lemma keeps_makedirs [keep]: "keeps (\<lambda>f. isdir f P) (os_makedirs env p)"
  unfolding os_makedirs_def
  by (rule keeps_syscall) (auto simp: makedirs_act_def isdir_add_dirs split: if_splits)

lemma keeps_rename [keep]:
  "\<not> prefix src P \<Longrightarrow> \<not> prefix dst P \<Longrightarrow> keeps (\<lambda>f. isdir f P) (os_rename env src dst)"
  unfolding os_rename_def
  by (rule keeps_syscall) (auto simp: rename_act_def isdir_move_tree split: if_splits)

lemma keeps_rmtree [keep]: "\<not> prefix p P \<Longrightarrow> keeps (\<lambda>f. isdir f P) (shutil_rmtree env p)"
  unfolding shutil_rmtree_def
  by (rule keeps_syscall) (auto simp: rmtree_act_def isdir_remove_tree split: if_splits)

lemma keeps_remove [keep]: "p \<noteq> P \<Longrightarrow> keeps (\<lambda>f. isdir f P) (os_remove env p)"
  unfolding os_remove_def
  by (rule keeps_syscall) (auto simp: remove_act_def isdir_delete split: if_splits)

lemma keeps_rmdir [keep]: "p \<noteq> P \<Longrightarrow> keeps (\<lambda>f. isdir f P) (os_rmdir env p)"
  unfolding os_rmdir_def
  by (rule keeps_syscall) (auto simp: rmdir_act_def isdir_delete split: if_splits)

lemma keeps_write_file [keep]: "keeps (\<lambda>f. isdir f P) (write_file env p c)"
  unfolding write_file_def
  by (rule keeps_syscall) (rule isdir_write_act)

lemma keeps_call_write_isdir [keep]: "keeps (\<lambda>f. isdir f P) (call_write n P g)"
  by (rule keeps_call_write) (rule isdir_write_under)

section \<open>The converters' entry points\<close>

lemma preflight_run:
  "\<exists>evs. preflight env w = (Inr (), w\<lparr>trace := trace w @ evs\<rparr>) \<and> (\<forall>ev \<in> set evs. \<exists>s. ev = Print s)"
proof (cases "fst (version_info env) = 3 \<and> 12 \<le> snd (version_info env)")
  case v: True
  show ?thesis
  proof (cases "lower (platform_system env) = ''windows''")
    case True
    with v show ?thesis
      by (intro exI[of _ "[Print ''[WARN] Detected Python 3.12 or later. For best compatibility, use Python 3.10.'',
             Print ''[INFO] Running on Windows; long path or antivirus may slow conversion.'']"])
         (auto simp add: preflight_def bind_def print_def emit_def ret_def)
  next
    case False
    with v show ?thesis
      by (intro exI[of _ "[Print ''[WARN] Detected Python 3.12 or later. For best compatibility, use Python 3.10.'']"])
         (auto simp add: preflight_def bind_def print_def emit_def ret_def)
  qed
next
  case v: False
  show ?thesis
  proof (cases "lower (platform_system env) = ''windows''")
    case True
    with v show ?thesis
      by (intro exI[of _ "[Print ''[INFO] Running on Windows; long path or antivirus may slow conversion.'']"])
         (auto simp add: preflight_def bind_def print_def emit_def ret_def)
  next
    case False
    with v show ?thesis
      by (intro exI[of _ "[]"])
         (auto simp add: preflight_def bind_def print_def emit_def ret_def)
  qed
qed

lemma main_not_found:
  assumes "\<not> isfile (fs w) (abspath env (arg_onnx a))"
  shows "\<exists>evs. main env a w = (Inr 1, w\<lparr>trace := trace w @ evs\<rparr>) \<and>
     (\<forall>ev \<in> set evs. (\<exists>s. ev = Print s) \<or> ev = Sys (Isfile (abspath env (arg_onnx a))))"
proof -
  obtain pre where pre: "preflight env w = (Inr (), w\<lparr>trace := trace w @ pre\<rparr>)"
    and only: "\<forall>ev \<in> set pre. \<exists>s. ev = Print s"
    using preflight_run by blast
  let ?p = "abspath env (arg_onnx a)"
  let ?evs = "pre @ [Sys (Isfile ?p), Print (''[ERR] ONNX file not found: '' @ show_path ?p)]"
  have "main env a w = (Inr 1, w\<lparr>trace := trace w @ ?evs\<rparr>)"
    using assms pre
    by (simp add: main_def bind_def print_def emit_def ret_def os_path_isfile_def query_def Let_def)
  moreover have "\<forall>ev \<in> set ?evs. (\<exists>s. ev = Print s) \<or> ev = Sys (Isfile ?p)"
    using only by auto
  ultimately show ?thesis by blast
qed

lemma main_simple_not_found:
  assumes "3 \<le> length argv" and "\<not> isfile (fs w) (abspath env (argv ! 1))"
  shows "main_simple env argv w =
     (Inr 1, w\<lparr>trace := trace w @ [Sys (Isfile (abspath env (argv ! 1))),
                                     Print (''[ERR] ONNX file not found: '' @ argv ! 1)]\<rparr>)"
  using assms
  by (simp add: main_simple_def bind_def print_def emit_def ret_def os_path_isfile_def
      query_def Let_def)

text \<open>
  Claim C1. When the input ONNX path does not name an existing file, either converter
  entry point returns exit code 1 and leaves the world as it was but for the trace: the
  full converter appends printed lines and the one \<^verbatim>\<open>os.path.isfile\<close> test, the simple
  converter exactly that test and the error line. No module is imported and no library
  function is called, so neither conversion stage is attempted.
\<close>

theorem converters_input_not_found:
  "(\<not> isfile (fs w) (abspath env (arg_onnx a)) \<longrightarrow>
      (\<exists>evs. main env a w = (Inr 1, w\<lparr>trace := trace w @ evs\<rparr>) \<and>
         (\<forall>ev \<in> set evs. (\<exists>s. ev = Print s) \<or> ev = Sys (Isfile (abspath env (arg_onnx a))))))
   \<and> (3 \<le> length argv \<and> \<not> isfile (fs w) (abspath env (argv ! 1)) \<longrightarrow>
        main_simple env argv w =
          (Inr 1, w\<lparr>trace := trace w @ [Sys (Isfile (abspath env (argv ! 1))),
                                          Print (''[ERR] ONNX file not found: '' @ argv ! 1)]\<rparr>))"
  using main_not_found main_simple_not_found by blast

theorem converters_input_not_found_witness:
  "\<not> isfile (fs demo_world) (abspath env_installed (arg_onnx (demo_args\<lparr>arg_onnx := ''missing.onnx''\<rparr>)))
   \<and> (\<exists>evs. main env_installed (demo_args\<lparr>arg_onnx := ''missing.onnx''\<rparr>) demo_world
              = (Inr 1, demo_world\<lparr>trace := trace demo_world @ evs\<rparr>))
   \<and> main_simple env_installed [''onnx_to_tflite_simple.py'', ''missing.onnx'', ''out.tflite''] demo_world
       = (Inr 1, demo_world\<lparr>trace := trace demo_world @
            [Sys (Isfile (abspath env_installed ''missing.onnx'')),
             Print (''[ERR] ONNX file not found: '' @ ''missing.onnx'')]\<rparr>)"
proof -
  have nf: "\<not> isfile (fs demo_world) (abspath env_installed ''missing.onnx'')"
    by (simp add: demo_world_def env_installed_def isfile_def lookup_path_def)
  have a: "\<not> isfile (fs demo_world)
             (abspath env_installed (arg_onnx (demo_args\<lparr>arg_onnx := ''missing.onnx''\<rparr>)))"
    using nf by simp
  have b: "3 \<le> length [''onnx_to_tflite_simple.py'', ''missing.onnx'', ''out.tflite'']
           \<and> \<not> isfile (fs demo_world) (abspath env_installed
                 ([''onnx_to_tflite_simple.py'', ''missing.onnx'', ''out.tflite''] ! 1))"
    using nf by simp
  from converters_input_not_found
         [of demo_world env_installed "demo_args\<lparr>arg_onnx := ''missing.onnx''\<rparr>"
             "[''onnx_to_tflite_simple.py'', ''missing.onnx'', ''out.tflite'']"]
       a b
  show ?thesis by auto
qed

text \<open>
  Claim C10. Called with fewer than two positional arguments, the simple converter prints
  its usage line and returns exit code 1; nothing else happens: the file system is
  unchanged and the trace grows by that one printed line, so no path is examined,
  created or deleted. Exit code 1 is also what it returns for an input file that does
  not exist, so the code alone does not tell the two cases apart.
\<close>

theorem main_simple_missing_arguments:
  "(length argv < 3 \<longrightarrow>
      main_simple env argv w =
        (Inr 1, w\<lparr>trace := trace w @
           [Print ''Usage: python onnx_to_tflite_simple.py <input.onnx> <output.tflite>'']\<rparr>))
   \<and> (3 \<le> length argv \<and> \<not> isfile (fs w) (abspath env (argv ! 1)) \<longrightarrow>
        fst (main_simple env argv w) = Inr 1)"
  by (simp add: main_simple_not_found)
     (simp add: main_simple_def bind_def print_def emit_def ret_def)

theorem main_simple_missing_arguments_witness:
  "main_simple env_installed [''onnx_to_tflite_simple.py'', ''model.onnx''] demo_world =
        (Inr 1, demo_world\<lparr>trace := trace demo_world @
           [Print ''Usage: python onnx_to_tflite_simple.py <input.onnx> <output.tflite>'']\<rparr>)
   \<and> fst (main_simple env_installed [''onnx_to_tflite_simple.py'', ''missing.onnx'', ''out.tflite'']
            demo_world) = Inr 1"
proof -
  have a: "length [''onnx_to_tflite_simple.py'', ''model.onnx''] < 3" by simp
  have b: "3 \<le> length [''onnx_to_tflite_simple.py'', ''missing.onnx'', ''out.tflite'']
           \<and> \<not> isfile (fs demo_world) (abspath env_installed
                 ([''onnx_to_tflite_simple.py'', ''missing.onnx'', ''out.tflite''] ! 1))"
    by (simp add: demo_world_def env_installed_def isfile_def lookup_path_def)
  from main_simple_missing_arguments
         [of "[''onnx_to_tflite_simple.py'', ''model.onnx'']" env_installed demo_world] a
       main_simple_missing_arguments
         [of "[''onnx_to_tflite_simple.py'', ''missing.onnx'', ''out.tflite'']" env_installed demo_world] b
  show ?thesis by blast
qed

section \<open>The \<^verbatim>\<open>onnx.mapping\<close> shim\<close>

text \<open>
  Claim C7 says that the two tables of the shim are mutually inverse under every outcome
  of the two \<^verbatim>\<open>hasattr\<close> probes. They are not when a probe fails: without
  \<^verbatim>\<open>numpy.uint32\<close> the shim maps both UINT32 and UINT64 to \<^verbatim>\<open>uint64\<close>, and the
  reverse table, built by a dict comprehension in which the later item wins, sends
  \<^verbatim>\<open>uint64\<close> back to UINT64.
\<close>

theorem shim_roundtrip_counterexample:
  "map_of (TENSOR_TYPE_TO_NP_TYPE (\<lambda>a. a \<noteq> ''uint32'')) UINT32 = Some np_uint64
   \<and> map_of (NP_TYPE_TO_TENSOR_TYPE (\<lambda>a. a \<noteq> ''uint32'')) np_uint64 = Some UINT64
   \<and> UINT64 \<noteq> UINT32"
  by (simp add: TENSOR_TYPE_TO_NP_TYPE_def NP_TYPE_TO_TENSOR_TYPE_def dict_of_items_def)

text \<open>
  Claim C7, amended. Looking a tensor element type \<open>T\<close> up in \<open>TENSOR_TYPE_TO_NP_TYPE\<close> and
  the resulting dtype in \<open>NP_TYPE_TO_TENSOR_TYPE\<close> yields \<open>T\<close> again, except for a type
  whose probe failed: UINT32 comes back as UINT64 when numpy has no \<^verbatim>\<open>uint32\<close>, and
  COMPLEX64 comes back as COMPLEX128 when numpy has no \<^verbatim>\<open>complex64\<close>. In the other
  direction the round trip holds under every outcome of the probes: a dtype of the
  reverse table maps to a tensor type that maps to that dtype.
\<close>

theorem shim_roundtrip:
  "(map_of (TENSOR_TYPE_TO_NP_TYPE h) T = Some d \<longrightarrow>
      map_of (NP_TYPE_TO_TENSOR_TYPE h) d =
        Some (if T = UINT32 \<and> \<not> h ''uint32'' then UINT64
              else if T = COMPLEX64 \<and> \<not> h ''complex64'' then COMPLEX128
              else T))
   \<and> (map_of (NP_TYPE_TO_TENSOR_TYPE h) d = Some T \<longrightarrow>
        map_of (TENSOR_TYPE_TO_NP_TYPE h) T = Some d)"
proof
  show "map_of (TENSOR_TYPE_TO_NP_TYPE h) T = Some d \<longrightarrow>
      map_of (NP_TYPE_TO_TENSOR_TYPE h) d =
        Some (if T = UINT32 \<and> \<not> h ''uint32'' then UINT64
              else if T = COMPLEX64 \<and> \<not> h ''complex64'' then COMPLEX128
              else T)"
    by (cases T; cases "h ''uint32''"; cases "h ''complex64''";
        simp add: TENSOR_TYPE_TO_NP_TYPE_def NP_TYPE_TO_TENSOR_TYPE_def dict_of_items_def)
  show "map_of (NP_TYPE_TO_TENSOR_TYPE h) d = Some T \<longrightarrow>
        map_of (TENSOR_TYPE_TO_NP_TYPE h) T = Some d"
    by (cases d; cases "h ''uint32''"; cases "h ''complex64''";
        simp add: TENSOR_TYPE_TO_NP_TYPE_def NP_TYPE_TO_TENSOR_TYPE_def dict_of_items_def)
qed

theorem shim_roundtrip_witness:
  "map_of (TENSOR_TYPE_TO_NP_TYPE (np_hasattr env_installed)) FLOAT16 = Some np_float16
   \<and> map_of (NP_TYPE_TO_TENSOR_TYPE (np_hasattr env_installed)) np_float16 = Some FLOAT16
   \<and> map_of (NP_TYPE_TO_TENSOR_TYPE (\<lambda>a. a \<noteq> ''uint32'')) np_uint64 = Some UINT64
   \<and> map_of (TENSOR_TYPE_TO_NP_TYPE (\<lambda>a. a \<noteq> ''uint32'')) UINT64 = Some np_uint64"
proof -
  have a: "map_of (TENSOR_TYPE_TO_NP_TYPE (np_hasattr env_installed)) FLOAT16 = Some np_float16"
    by (simp add: TENSOR_TYPE_TO_NP_TYPE_def dict_of_items_def)
  have b: "map_of (NP_TYPE_TO_TENSOR_TYPE (\<lambda>a. a \<noteq> ''uint32'')) np_uint64 = Some UINT64"
    by (simp add: TENSOR_TYPE_TO_NP_TYPE_def NP_TYPE_TO_TENSOR_TYPE_def dict_of_items_def)
  from shim_roundtrip[of "np_hasattr env_installed" FLOAT16 np_float16] a
  have "map_of (NP_TYPE_TO_TENSOR_TYPE (np_hasattr env_installed)) np_float16 = Some FLOAT16"
    by simp
  moreover from shim_roundtrip[of "\<lambda>a. a \<noteq> ''uint32''" UINT64 np_uint64] b
  have "map_of (TENSOR_TYPE_TO_NP_TYPE (\<lambda>a. a \<noteq> ''uint32'')) UINT64 = Some np_uint64"
    by simp
  ultimately show ?thesis using a b by simp
qed

section \<open>The fallback from onnx2tf to onnx-tf\<close>
















section \<open>The temporary directory\<close>

lemmas run_defs = main_def main_simple_def preflight_def run_conversion_def
  convert_onnx_to_saved_model_def try_onnx2tf_def fallback_onnx_tf_def install_mapping_shim_def
  convert_saved_model_to_tflite_def reroot_saved_model_def simple_pipeline_def simple_onnx2tf_def
  simple_tflite_def
  bind_def ret_def raise_def try_except_def try_finally_def emit_def print_def query_def
  syscall_def import_module_def call_lib_def call_read_def call_write_def set_onnx_mapping_def
  tempfile_mkdtemp_def fs_calls Let_def
  makedirs_act_def mkdtemp_act_def rename_act_def rmtree_act_def remove_act_def rmdir_act_def
  listdir_act_def write_act_def cleanup_act_def
  isdir_def isfile_def path_exists_def lookup_path_def children_def remove_tree_def move_tree_def
  add_dirs_def write_under_def lower_def lower_char_def show_path_def

lemma try_finally_cleanup:
  "try_finally m (try_except (tmpdir_cleanup env d) (\<lambda>e. ret ())) w =
     (case m w of (r, w1) \<Rightarrow>
        (r, w1\<lparr>trace := trace w1 @ [Sys (Cleanup d)],
               fs := (case os_fault env (fs w1) (Cleanup d) of
                        None \<Rightarrow> if d = [] then fs w1 else remove_tree d (fs w1)
                      | Some e \<Rightarrow> fs w1)\<rparr>))"
  by (simp add: try_finally_def try_except_def tmpdir_cleanup_def syscall_def cleanup_act_def
      ret_def Let_def split: prod.splits option.splits)

lemma try_finally_rmtree:
  "try_finally m (shutil_rmtree_ignore_errors env d) w =
     (case m w of (r, w1) \<Rightarrow>
        (r, w1\<lparr>trace := trace w1 @ [Sys (Rmtree d)],
               fs := (case os_fault env (fs w1) (Rmtree d) of
                        None \<Rightarrow> if d = [] then fs w1 else remove_tree d (fs w1)
                      | Some e \<Rightarrow> fs w1)\<rparr>))"
  by (simp add: try_finally_def try_except_def shutil_rmtree_ignore_errors_def syscall_def
      cleanup_act_def ret_def Let_def split: prod.splits option.splits)

lemma finally_cleanup_then_return:
  assumes "bind (try_finally m (try_except (tmpdir_cleanup env d) (\<lambda>e. ret ()))) k w = (r, w')"
      and "\<And>x v. \<exists>y. k x v = (Inr y, v)"
  shows "\<exists>w1 :: world. trace w' = trace w1 @ [Sys (Cleanup d)]
            \<and> fs w' = (case os_fault env (fs w1) (Cleanup d) of
                         None \<Rightarrow> if d = [] then fs w1 else remove_tree d (fs w1)
                       | Some e \<Rightarrow> fs w1)"
proof -
  obtain rm w1 where m: "m w = (rm, w1)" by (cases "m w")
  define w2 where "w2 = w1\<lparr>trace := trace w1 @ [Sys (Cleanup d)],
               fs := (case os_fault env (fs w1) (Cleanup d) of
                        None \<Rightarrow> if d = [] then fs w1 else remove_tree d (fs w1)
                      | Some e \<Rightarrow> fs w1)\<rparr>"
  have tf: "try_finally m (try_except (tmpdir_cleanup env d) (\<lambda>e. ret ())) w = (rm, w2)"
    by (simp add: try_finally_cleanup m w2_def)
  have "w' = w2"
  proof (cases rm)
    case (Inl e)
    with assms(1) tf show ?thesis by (simp add: bind_def)
  next
    case (Inr x)
    from assms(2)[of x w2] obtain y where "k x w2 = (Inr y, w2)" by blast
    with assms(1) tf Inr show ?thesis by (simp add: bind_def)
  qed
  then have "trace w' = trace w1 @ [Sys (Cleanup d)]
            \<and> fs w' = (case os_fault env (fs w1) (Cleanup d) of
                         None \<Rightarrow> if d = [] then fs w1 else remove_tree d (fs w1)
                       | Some e \<Rightarrow> fs w1)"
    by (simp add: w2_def)
  then show ?thesis by blast
qed

lemma run_conversion_tmp:
  assumes "run_conversion env a onnx out sm (Some d) w = (r, w')"
  shows "\<exists>w1 :: world. trace w' = trace w1 @ [Sys (Cleanup d)]
            \<and> fs w' = (case os_fault env (fs w1) (Cleanup d) of
                         None \<Rightarrow> if d = [] then fs w1 else remove_tree d (fs w1)
                       | Some e \<Rightarrow> fs w1)"
proof (rule finally_cleanup_then_return)
  show "bind (try_finally
             (try_except
                (bind (os_makedirs env sm) (\<lambda>u.
                 bind (convert_onnx_to_saved_model env onnx sm) (\<lambda>u.
                 bind (convert_saved_model_to_tflite env sm out
                         (arg_fp16 a) (arg_optimize a) (arg_allow_custom_ops a)) (\<lambda>u.
                 bind (print ''[DONE] Conversion complete.'') (\<lambda>u.
                 ret None)))))
                (\<lambda>e. bind (print (''[ERR] Conversion failed: '' @ str_exn e)) (\<lambda>u. ret (Some 2))))
             (try_except (tmpdir_cleanup env d) (\<lambda>e. ret ())))
          (\<lambda>r. case r of Some code \<Rightarrow> ret code | None \<Rightarrow> ret 0) w = (r, w')"
    using assms by (simp add: run_conversion_def)
  show "\<exists>y. (case x of Some code \<Rightarrow> ret code | None \<Rightarrow> ret 0) v = (Inr y, v)" for x :: "int option" and v
    by (cases x) (simp_all add: ret_def)
qed

lemma mkdtemp_result:
  assumes "tempfile_mkdtemp env pre w = (Inr p, w1)"
  shows "p = mkdtemp_name env (fs w) pre \<and> p \<noteq> []"
  using assms
  by (auto simp add: tempfile_mkdtemp_def syscall_def mkdtemp_act_def path_exists_def
      lookup_path_def Let_def split: option.splits if_splits)

lemma removed_tree_gone:
  assumes "d \<noteq> []" and "prefix d q"
  shows "\<not> path_exists (remove_tree d f) q"
proof -
  from assms have "q \<noteq> []" by auto
  with assms(2) show ?thesis
    by (simp add: path_exists_def lookup_path_def map_of_remove_tree)
qed

lemma main_reaches_conversion:
  assumes unset: "arg_saved_model_dir a = None \<or> arg_saved_model_dir a = Some []"
      and run: "main env a w = (Inr c, w')"
      and c: "c \<noteq> 1"
  shows "\<exists>w0 w1 tmp. fs w0 = fs w
           \<and> tempfile_mkdtemp env ''onnx2tflite_'' w0 = (Inr tmp, w1)
           \<and> run_conversion env a (abspath env (arg_onnx a)) (abspath env (arg_out a))
                (tmp @ [''saved_model'']) (Some tmp) w1 = (Inr c, w')"
proof -
  obtain pre where pre: "preflight env w = (Inr (), w\<lparr>trace := trace w @ pre\<rparr>)"
    using preflight_run by blast
  let ?p = "abspath env (arg_onnx a)"
  let ?w0 = "w\<lparr>trace := trace w @ pre @ [Sys (Isfile ?p)]\<rparr>"
  have found: "isfile (fs w) ?p"
  proof (rule ccontr)
    assume "\<not> isfile (fs w) ?p"
    from main_not_found[OF this] run c show False by auto
  qed
  have "main env a w =
      bind (tempfile_mkdtemp env ''onnx2tflite_'') (\<lambda>tmp.
        run_conversion env a ?p (abspath env (arg_out a)) (tmp @ [''saved_model'']) (Some tmp)) ?w0"
    using unset pre found
    by (auto simp add: main_def bind_def os_path_isfile_def query_def Let_def)
  with run obtain tmp w1 where "tempfile_mkdtemp env ''onnx2tflite_'' ?w0 = (Inr tmp, w1)"
    and "run_conversion env a ?p (abspath env (arg_out a)) (tmp @ [''saved_model'']) (Some tmp) w1
           = (Inr c, w')"
    by (auto simp add: bind_def split: prod.splits sum.splits)
  moreover have "fs ?w0 = fs w" by simp
  ultimately show ?thesis by blast
qed

lemma main_simple_reaches_pipeline:
  assumes run: "main_simple env argv w = (Inr c, w')"
      and c: "c \<noteq> 1"
  shows "\<exists>w0 w1 tmp. fs w0 = fs w
           \<and> tempfile_mkdtemp env ''onnx2tflite_'' w0 = (Inr tmp, w1)
           \<and> try_finally (simple_pipeline env (argv ! 1) (argv ! 2) tmp)
                (shutil_rmtree_ignore_errors env tmp) w1 = (Inr c, w')"
proof -
  have len: "3 \<le> length argv"
  proof (rule ccontr)
    assume "\<not> 3 \<le> length argv"
    with run c show False
      by (simp add: main_simple_def bind_def print_def emit_def ret_def)
  qed
  let ?p = "abspath env (argv ! 1)"
  let ?w0 = "w\<lparr>trace := trace w @ [Sys (Isfile ?p),
                Print ''[1/2] Converting ONNX -> SavedModel with onnx2tf...'']\<rparr>"
  have found: "isfile (fs w) ?p"
  proof (rule ccontr)
    assume "\<not> isfile (fs w) ?p"
    from main_simple_not_found[OF len this] run c show False by auto
  qed
  have "main_simple env argv w =
      bind (tempfile_mkdtemp env ''onnx2tflite_'') (\<lambda>tmpdir.
        try_finally (simple_pipeline env (argv ! 1) (argv ! 2) tmpdir)
          (shutil_rmtree_ignore_errors env tmpdir)) ?w0"
    using len found
    by (simp add: main_simple_def bind_def os_path_isfile_def query_def Let_def print_def emit_def)
  with run obtain tmp w1 where "tempfile_mkdtemp env ''onnx2tflite_'' ?w0 = (Inr tmp, w1)"
    and "try_finally (simple_pipeline env (argv ! 1) (argv ! 2) tmp)
           (shutil_rmtree_ignore_errors env tmp) w1 = (Inr c, w')"
    by (auto simp add: bind_def split: prod.splits sum.splits)
  moreover have "fs ?w0 = fs w" by simp
  ultimately show ?thesis by blast
qed

subsection \<open>The exit code does not depend on the removal\<close>

lemma fst_bind_cong:
  assumes "\<And>x v. fst (k x v) = fst (k' x v)"
  shows "fst (bind m k w) = fst (bind m k' w)"
  by (simp add: bind_def assms split: prod.splits sum.splits)

lemma cleanup_never_raises:
  "\<exists>v. try_except (tmpdir_cleanup env d) (\<lambda>e. ret ()) w = (Inr (), v)"
  by (simp add: try_except_def tmpdir_cleanup_def syscall_def cleanup_act_def ret_def Let_def
      split: option.splits)

lemma rmtree_never_raises:
  "\<exists>v. shutil_rmtree_ignore_errors env d w = (Inr (), v)"
  by (simp add: try_except_def shutil_rmtree_ignore_errors_def syscall_def cleanup_act_def ret_def
      Let_def split: option.splits)

lemma try_finally_result:
  assumes "\<And>v. \<exists>v'. fin v = (Inr (), v')"
  shows "fst (try_finally m fin w) = fst (m w)"
proof -
  obtain r w1 where m: "m w = (r, w1)" by (cases "m w")
  from assms[of w1] obtain v' where "fin w1 = (Inr (), v')" by blast
  with m show ?thesis by (simp add: try_finally_def)
qed

lemma run_conversion_result:
  "fst (run_conversion env a onnx out sm (Some d) w) = fst (run_conversion env a onnx out sm None w)"
proof -
  have k: "fst ((case r of Some code \<Rightarrow> ret code | None \<Rightarrow> ret 0) v)
         = fst ((case r of Some code \<Rightarrow> ret code | None \<Rightarrow> ret 0) v')"
    for r :: "int option" and v v' :: world
    by (cases r) (simp_all add: ret_def)
  have b: "fst (bind m (\<lambda>r. case r of Some code \<Rightarrow> ret code | None \<Rightarrow> ret 0) w)
         = fst (bind m' (\<lambda>r. case r of Some code \<Rightarrow> ret code | None \<Rightarrow> ret 0) w)"
    if "fst (m w) = fst (m' w)" for m m' :: "int option io"
  proof -
    obtain r w1 where m: "m w = (r, w1)" by (cases "m w")
    obtain r' w1' where m': "m' w = (r', w1')" by (cases "m' w")
    from that m m' have "r' = r" by simp
    with m m' k[of _ w1 w1'] show ?thesis by (cases r) (simp_all add: bind_def)
  qed
  show ?thesis
    unfolding run_conversion_def option.case
    by (rule b) (simp add: try_finally_result cleanup_never_raises ret_def)
qed

text \<open>An operating system that answers as \<open>env\<close> does, except to the calls in \<open>C\<close>.\<close>

lemma syscall_indep:
  assumes "\<And>f. g f c = os_fault env f c"
  shows "syscall (env\<lparr>os_fault := g\<rparr>) c act = syscall env c act"
  by (rule ext) (simp add: syscall_def assms)

lemma import_indep: "import_module (env\<lparr>os_fault := g\<rparr>) = import_module env"
  by (intro ext) (simp add: import_module_def)

lemma preflight_indep: "preflight (env\<lparr>os_fault := g\<rparr>) = preflight env"
  by (simp add: preflight_def)

lemma mkdtemp_indep:
  assumes "\<And>f. g f (Mkdtemp pre) = os_fault env f (Mkdtemp pre)"
  shows "tempfile_mkdtemp (env\<lparr>os_fault := g\<rparr>) pre = tempfile_mkdtemp env pre"
  by (rule ext) (simp add: tempfile_mkdtemp_def syscall_def assms)

lemma reroot_indep:
  assumes "\<And>f c. (\<forall>d. c \<noteq> Cleanup d) \<Longrightarrow> g f c = os_fault env f c"
  shows "reroot_saved_model (env\<lparr>os_fault := g\<rparr>) out d = reroot_saved_model env out d"
  by (simp add: reroot_saved_model_def
      os_rename_def os_listdir_def shutil_rmtree_def os_remove_def os_rmdir_def
      syscall_indep assms cong del: if_weak_cong)

lemma stage1_indep:
  assumes "\<And>f c. (\<forall>d. c \<noteq> Cleanup d) \<Longrightarrow> g f c = os_fault env f c"
  shows "convert_onnx_to_saved_model (env\<lparr>os_fault := g\<rparr>) onnx out
       = convert_onnx_to_saved_model env onnx out"
  by (simp add: convert_onnx_to_saved_model_def try_onnx2tf_def fallback_onnx_tf_def
      install_mapping_shim_def reroot_indep[OF assms] import_indep cong del: if_weak_cong)

lemma stage2_indep:
  assumes "\<And>f c. (\<forall>d. c \<noteq> Cleanup d) \<Longrightarrow> g f c = os_fault env f c"
  shows "convert_saved_model_to_tflite (env\<lparr>os_fault := g\<rparr>) sm out x y z
       = convert_saved_model_to_tflite env sm out x y z"
  by (simp add: convert_saved_model_to_tflite_def import_indep os_makedirs_def write_file_def
      syscall_indep assms)

lemma run_conversion_indep:
  assumes "\<And>f c. (\<forall>d. c \<noteq> Cleanup d) \<Longrightarrow> g f c = os_fault env f c"
  shows "run_conversion (env\<lparr>os_fault := g\<rparr>) a onnx out sm None
       = run_conversion env a onnx out sm None"
  by (simp add: run_conversion_def stage1_indep[OF assms] stage2_indep[OF assms]
      os_makedirs_def syscall_indep assms)

lemma main_exit_code_indep:
  assumes g: "\<And>f c. (\<forall>d. c \<noteq> Cleanup d) \<Longrightarrow> g f c = os_fault env f c"
  shows "fst (main (env\<lparr>os_fault := g\<rparr>) a w) = fst (main env a w)"
proof -
  have rc: "fst (run_conversion (env\<lparr>os_fault := g\<rparr>) a onnx out sm t v)
          = fst (run_conversion env a onnx out sm t v)" for onnx out sm t v
  proof (cases t)
    case None
    then show ?thesis by (simp add: run_conversion_indep[OF g])
  next
    case (Some d)
    then show ?thesis
      by (simp add: run_conversion_result run_conversion_indep[OF g])
  qed
  have tmp: "fst (bind (tempfile_mkdtemp (env\<lparr>os_fault := g\<rparr>) ''onnx2tflite_'') (\<lambda>tmp.
                 run_conversion (env\<lparr>os_fault := g\<rparr>) a onnx out (tmp @ [''saved_model'']) (Some tmp)) v)
           = fst (bind (tempfile_mkdtemp env ''onnx2tflite_'') (\<lambda>tmp.
                 run_conversion env a onnx out (tmp @ [''saved_model'']) (Some tmp)) v)"
    for onnx out v
    by (simp add: mkdtemp_indep g) (rule fst_bind_cong, rule rc)
  have kept: "fst (bind (os_makedirs (env\<lparr>os_fault := g\<rparr>) sm) (\<lambda>u.
                  run_conversion (env\<lparr>os_fault := g\<rparr>) a onnx out sm None) v)
            = fst (bind (os_makedirs env sm) (\<lambda>u. run_conversion env a onnx out sm None) v)"
    for onnx out sm v
    by (simp add: os_makedirs_def syscall_indep g) (rule fst_bind_cong, rule rc)
  show ?thesis
    unfolding main_def preflight_indep Let_def
    apply (rule fst_bind_cong)
    apply (simp add: )
    apply (rule fst_bind_cong)
    apply (simp add: tmp kept split: option.splits)
    done
qed


lemma simple_pipeline_indep:
  assumes "\<And>f c. (\<forall>d. c \<noteq> Rmtree d) \<Longrightarrow> g f c = os_fault env f c"
  shows "simple_pipeline (env\<lparr>os_fault := g\<rparr>) onnx out tmp = simple_pipeline env onnx out tmp"
  by (simp add: simple_pipeline_def simple_onnx2tf_def simple_tflite_def import_indep
      os_makedirs_def write_file_def syscall_indep assms
      cong del: if_weak_cong option.case_cong_weak)

lemma main_simple_exit_code_indep:
  assumes g: "\<And>f c. (\<forall>d. c \<noteq> Rmtree d) \<Longrightarrow> g f c = os_fault env f c"
  shows "fst (main_simple (env\<lparr>os_fault := g\<rparr>) argv w) = fst (main_simple env argv w)"
proof -
  have tf: "fst (try_finally (simple_pipeline (env\<lparr>os_fault := g\<rparr>) onnx out tmp)
                   (shutil_rmtree_ignore_errors (env\<lparr>os_fault := g\<rparr>) tmp) v)
          = fst (try_finally (simple_pipeline env onnx out tmp)
                   (shutil_rmtree_ignore_errors env tmp) v)" for onnx out tmp v
    by (simp add: try_finally_result rmtree_never_raises simple_pipeline_indep[OF g])
  have tmp: "fst (bind (tempfile_mkdtemp (env\<lparr>os_fault := g\<rparr>) ''onnx2tflite_'') (\<lambda>tmpdir.
                 try_finally (simple_pipeline (env\<lparr>os_fault := g\<rparr>) onnx out tmpdir)
                   (shutil_rmtree_ignore_errors (env\<lparr>os_fault := g\<rparr>) tmpdir)) v)
           = fst (bind (tempfile_mkdtemp env ''onnx2tflite_'') (\<lambda>tmpdir.
                 try_finally (simple_pipeline env onnx out tmpdir)
                   (shutil_rmtree_ignore_errors env tmpdir)) v)"
    for onnx out v
    by (simp add: mkdtemp_indep g) (rule fst_bind_cong, rule tf)
  show ?thesis
  proof (cases "length argv < 3")
    case True
    then show ?thesis by (simp add: main_simple_def)
  next
    case False
    then show ?thesis
      unfolding main_simple_def Let_def
      apply simp
      apply (rule fst_bind_cong)
      subgoal for x v
        apply (cases x)
         apply simp
         apply (rule fst_bind_cong)
         apply (rule tmp)
        apply simp
        done
      done
  qed
qed

text \<open>
  Claim C3 says that, with \<^verbatim>\<open>--saved-model-dir\<close> unset, the temporary directory no
  longer exists once \<^verbatim>\<open>main\<close> returns 0 or 2. Both converters remove it on a best-effort
  basis: the full converter wraps \<^verbatim>\<open>tmpdir.cleanup()\<close> in \<^verbatim>\<open>try ... except Exception: pass\<close>,
  the simple one calls \<^verbatim>\<open>shutil.rmtree(tmpdir, ignore_errors=True)\<close>. When the operating
  system refuses the removal (a file still held open, as happens on Windows), the refusal
  is swallowed, \<^verbatim>\<open>main\<close> returns its code all the same, and the directory is still there:
  after a successful conversion (0), after a failed one (2), and in the simple converter.
\<close>

theorem temp_dir_cleanup_counterexample:
  "fst (main (env_installed\<lparr>os_fault := refuse_removal\<rparr>) demo_args demo_world) = Inr 0
   \<and> isdir (fs (snd (main (env_installed\<lparr>os_fault := refuse_removal\<rparr>) demo_args demo_world)))
        [''tmp'', ''onnx2tflite_0'']
   \<and> fst (main (env_missing\<lparr>os_fault := refuse_removal\<rparr>) demo_args demo_world) = Inr 2
   \<and> isdir (fs (snd (main (env_missing\<lparr>os_fault := refuse_removal\<rparr>) demo_args demo_world)))
        [''tmp'', ''onnx2tflite_0'']
   \<and> fst (main_simple (env_missing\<lparr>os_fault := refuse_removal\<rparr>)
            [''onnx_to_tflite_simple.py'', ''model.onnx'', ''model.tflite''] demo_world) = Inr 2
   \<and> isdir (fs (snd (main_simple (env_missing\<lparr>os_fault := refuse_removal\<rparr>)
            [''onnx_to_tflite_simple.py'', ''model.onnx'', ''model.tflite''] demo_world)))
        [''tmp'', ''onnx2tflite_0'']"
  by (simp add: run_defs env_missing_def env_installed_def demo_args_def demo_world_def
      refuse_removal_def)

text \<open>
  Claim C3, amended. Whenever a converter's \<^verbatim>\<open>main\<close> returns a code other than 1 (so it
  has created its temporary directory; for the full converter \<^verbatim>\<open>--saved-model-dir\<close> is
  unset or empty), the last thing the run did is the attempt to remove that directory
  (\<^verbatim>\<open>tmpdir.cleanup()\<close>, respectively \<^verbatim>\<open>shutil.rmtree\<close>). If the operating system does
  not refuse that removal, neither the directory nor anything below it exists when
  \<^verbatim>\<open>main\<close> returns. A refusal is swallowed and does not change the exit code: for every
  command line and every state of the machine, \<^verbatim>\<open>main\<close> ends with the same exit code (or
  the same exception) under two operating systems that differ only in how they answer the
  removal of the temporary directory.
\<close>

theorem temp_dir_cleanup:
  "((arg_saved_model_dir a = None \<or> arg_saved_model_dir a = Some [])
      \<and> main env a w = (Inr c, w') \<and> c \<noteq> 1 \<longrightarrow>
        last (trace w') = Sys (Cleanup (mkdtemp_name env (fs w) ''onnx2tflite_''))
        \<and> ((\<forall>f. os_fault env f (Cleanup (mkdtemp_name env (fs w) ''onnx2tflite_'')) = None) \<longrightarrow>
            (\<forall>q. prefix (mkdtemp_name env (fs w) ''onnx2tflite_'') q \<longrightarrow> \<not> path_exists (fs w') q)))
   \<and> (main_simple env argv w = (Inr c, w') \<and> c \<noteq> 1 \<longrightarrow>
        last (trace w') = Sys (Rmtree (mkdtemp_name env (fs w) ''onnx2tflite_''))
        \<and> ((\<forall>f. os_fault env f (Rmtree (mkdtemp_name env (fs w) ''onnx2tflite_'')) = None) \<longrightarrow>
            (\<forall>q. prefix (mkdtemp_name env (fs w) ''onnx2tflite_'') q \<longrightarrow> \<not> path_exists (fs w') q)))
   \<and> ((\<forall>f c. (\<forall>d. c \<noteq> Cleanup d) \<longrightarrow> g f c = os_fault env f c) \<longrightarrow>
        fst (main (env\<lparr>os_fault := g\<rparr>) a w) = fst (main env a w))
   \<and> ((\<forall>f c. (\<forall>d. c \<noteq> Rmtree d) \<longrightarrow> g f c = os_fault env f c) \<longrightarrow>
        fst (main_simple (env\<lparr>os_fault := g\<rparr>) argv w) = fst (main_simple env argv w))"
proof -
  have p1: "(arg_saved_model_dir a = None \<or> arg_saved_model_dir a = Some [])
      \<and> main env a w = (Inr c, w') \<and> c \<noteq> 1 \<longrightarrow>
        last (trace w') = Sys (Cleanup (mkdtemp_name env (fs w) ''onnx2tflite_''))
        \<and> ((\<forall>f. os_fault env f (Cleanup (mkdtemp_name env (fs w) ''onnx2tflite_'')) = None) \<longrightarrow>
            (\<forall>q. prefix (mkdtemp_name env (fs w) ''onnx2tflite_'') q \<longrightarrow> \<not> path_exists (fs w') q))"
  proof (intro conjI impI)
    let ?tmp = "mkdtemp_name env (fs w) ''onnx2tflite_''"
    assume h: "(arg_saved_model_dir a = None \<or> arg_saved_model_dir a = Some [])
        \<and> main env a w = (Inr c, w') \<and> c \<noteq> 1"
    then obtain w0 w1 tmp where w0: "fs w0 = fs w"
      and mk: "tempfile_mkdtemp env ''onnx2tflite_'' w0 = (Inr tmp, w1)"
      and rc: "run_conversion env a (abspath env (arg_onnx a)) (abspath env (arg_out a))
                  (tmp @ [''saved_model'']) (Some tmp) w1 = (Inr c, w')"
      using main_reaches_conversion by blast
    from mkdtemp_result[OF mk] w0 have tmp: "tmp = ?tmp" "tmp \<noteq> []" by auto
    from run_conversion_tmp[OF rc] obtain w2 :: world where
      tr: "trace w' = trace w2 @ [Sys (Cleanup tmp)]"
      and f: "fs w' = (case os_fault env (fs w2) (Cleanup tmp) of
                           None \<Rightarrow> if tmp = [] then fs w2 else remove_tree tmp (fs w2)
                         | Some e \<Rightarrow> fs w2)"
      by blast
    from tr tmp show "last (trace w') = Sys (Cleanup ?tmp)" by simp
    assume "\<forall>f. os_fault env f (Cleanup ?tmp) = None"
    with f tmp have "fs w' = remove_tree tmp (fs w2)" by simp
    with removed_tree_gone[OF tmp(2)] tmp(1)
    show "\<forall>q. prefix ?tmp q \<longrightarrow> \<not> path_exists (fs w') q" by simp
  qed
  have p2: "main_simple env argv w = (Inr c, w') \<and> c \<noteq> 1 \<longrightarrow>
        last (trace w') = Sys (Rmtree (mkdtemp_name env (fs w) ''onnx2tflite_''))
        \<and> ((\<forall>f. os_fault env f (Rmtree (mkdtemp_name env (fs w) ''onnx2tflite_'')) = None) \<longrightarrow>
            (\<forall>q. prefix (mkdtemp_name env (fs w) ''onnx2tflite_'') q \<longrightarrow> \<not> path_exists (fs w') q))"
  proof (intro conjI impI)
    let ?tmp = "mkdtemp_name env (fs w) ''onnx2tflite_''"
    assume h: "main_simple env argv w = (Inr c, w') \<and> c \<noteq> 1"
    then obtain w0 w1 tmp where w0: "fs w0 = fs w"
      and mk: "tempfile_mkdtemp env ''onnx2tflite_'' w0 = (Inr tmp, w1)"
      and rc: "try_finally (simple_pipeline env (argv ! 1) (argv ! 2) tmp)
                  (shutil_rmtree_ignore_errors env tmp) w1 = (Inr c, w')"
      using main_simple_reaches_pipeline by blast
    from mkdtemp_result[OF mk] w0 have tmp: "tmp = ?tmp" "tmp \<noteq> []" by auto
    obtain rp w2 where p: "simple_pipeline env (argv ! 1) (argv ! 2) tmp w1 = (rp, w2)"
      by (cases "simple_pipeline env (argv ! 1) (argv ! 2) tmp w1")
    with rc have
      tr: "trace w' = trace w2 @ [Sys (Rmtree tmp)]"
      and f: "fs w' = (case os_fault env (fs w2) (Rmtree tmp) of
                           None \<Rightarrow> if tmp = [] then fs w2 else remove_tree tmp (fs w2)
                         | Some e \<Rightarrow> fs w2)"
      by (auto simp add: try_finally_rmtree)
    from tr tmp show "last (trace w') = Sys (Rmtree ?tmp)" by simp
    assume "\<forall>f. os_fault env f (Rmtree ?tmp) = None"
    with f tmp have "fs w' = remove_tree tmp (fs w2)" by simp
    with removed_tree_gone[OF tmp(2)] tmp(1)
    show "\<forall>q. prefix ?tmp q \<longrightarrow> \<not> path_exists (fs w') q" by simp
  qed
  have p3: "(\<forall>f c. (\<forall>d. c \<noteq> Cleanup d) \<longrightarrow> g f c = os_fault env f c) \<longrightarrow>
        fst (main (env\<lparr>os_fault := g\<rparr>) a w) = fst (main env a w)"
    by (intro impI, rule main_exit_code_indep) simp
  have p4: "(\<forall>f c. (\<forall>d. c \<noteq> Rmtree d) \<longrightarrow> g f c = os_fault env f c) \<longrightarrow>
        fst (main_simple (env\<lparr>os_fault := g\<rparr>) argv w) = fst (main_simple env argv w)"
    by (intro impI, rule main_simple_exit_code_indep) simp
  show ?thesis
    by (rule conjI[OF p1 conjI[OF p2 conjI[OF p3 p4]]])
qed

theorem temp_dir_cleanup_witness:
  "main env_installed demo_args demo_world
     = (Inr 0, snd (main env_installed demo_args demo_world))
   \<and> last (trace (snd (main env_installed demo_args demo_world)))
       = Sys (Cleanup [''tmp'', ''onnx2tflite_0''])
   \<and> \<not> path_exists (fs (snd (main env_installed demo_args demo_world))) [''tmp'', ''onnx2tflite_0'']
   \<and> main_simple env_missing [''onnx_to_tflite_simple.py'', ''model.onnx'', ''model.tflite''] demo_world
     = (Inr 2, snd (main_simple env_missing
                      [''onnx_to_tflite_simple.py'', ''model.onnx'', ''model.tflite''] demo_world))
   \<and> \<not> path_exists (fs (snd (main_simple env_missing
                      [''onnx_to_tflite_simple.py'', ''model.onnx'', ''model.tflite''] demo_world)))
         [''tmp'', ''onnx2tflite_0'']
   \<and> fst (main (env_installed\<lparr>os_fault := refuse_cleanup\<rparr>) demo_args demo_world) = Inr 0
   \<and> fst (main_simple (env_missing\<lparr>os_fault := refuse_rmtree\<rparr>)
            [''onnx_to_tflite_simple.py'', ''model.onnx'', ''model.tflite''] demo_world) = Inr 2"
proof -
  let ?argv = "[''onnx_to_tflite_simple.py'', ''model.onnx'', ''model.tflite'']"
  have r0: "fst (main env_installed demo_args demo_world) = Inr 0"
    by (simp add: run_defs env_installed_def demo_args_def demo_world_def)
  then have run: "main env_installed demo_args demo_world
     = (Inr 0, snd (main env_installed demo_args demo_world))"
    by (metis surjective_pairing)
  have r2: "fst (main_simple env_missing ?argv demo_world) = Inr 2"
    by (simp add: run_defs env_missing_def env_installed_def demo_world_def)
  then have run2: "main_simple env_missing ?argv demo_world
     = (Inr 2, snd (main_simple env_missing ?argv demo_world))"
    by (metis surjective_pairing)
  have unset: "arg_saved_model_dir demo_args = None \<or> arg_saved_model_dir demo_args = Some []"
    by (simp add: demo_args_def)
  have name: "mkdtemp_name env_installed (fs demo_world) ''onnx2tflite_'' = [''tmp'', ''onnx2tflite_0'']"
             "mkdtemp_name env_missing (fs demo_world) ''onnx2tflite_'' = [''tmp'', ''onnx2tflite_0'']"
    by (simp_all add: env_missing_def env_installed_def)
  have nofault: "\<forall>f. os_fault env_installed f (Cleanup [''tmp'', ''onnx2tflite_0'']) = None"
                "\<forall>f. os_fault env_missing f (Rmtree [''tmp'', ''onnx2tflite_0'']) = None"
    by (simp_all add: env_missing_def env_installed_def)
  have same: "\<forall>f c. (\<forall>d. c \<noteq> Cleanup d) \<longrightarrow> refuse_cleanup f c = os_fault env_installed f c"
             "\<forall>f c. (\<forall>d. c \<noteq> Rmtree d) \<longrightarrow> refuse_rmtree f c = os_fault env_missing f c"
    by (auto simp add: env_missing_def env_installed_def refuse_cleanup_def refuse_rmtree_def
        split: syscall.splits)
  note t1 = temp_dir_cleanup[of demo_args env_installed demo_world 0
         "snd (main env_installed demo_args demo_world)" ?argv refuse_cleanup]
  note t2 = temp_dir_cleanup[of demo_args env_missing demo_world 2
         "snd (main_simple env_missing ?argv demo_world)" ?argv refuse_rmtree]
  from t1 unset run name nofault
  have a: "last (trace (snd (main env_installed demo_args demo_world)))
             = Sys (Cleanup [''tmp'', ''onnx2tflite_0''])
           \<and> \<not> path_exists (fs (snd (main env_installed demo_args demo_world))) [''tmp'', ''onnx2tflite_0'']"
    by simp
  from t2 run2 name nofault
  have b: "\<not> path_exists (fs (snd (main_simple env_missing ?argv demo_world))) [''tmp'', ''onnx2tflite_0'']"
    by simp
  from t1[THEN conjunct2, THEN conjunct2, THEN conjunct1] same(1) r0
  have c: "fst (main (env_installed\<lparr>os_fault := refuse_cleanup\<rparr>) demo_args demo_world) = Inr 0"
    by simp
  from t2[THEN conjunct2, THEN conjunct2, THEN conjunct2] same(2) r2
  have d: "fst (main_simple (env_missing\<lparr>os_fault := refuse_rmtree\<rparr>) ?argv demo_world) = Inr 2"
    by simp
  from a b c d run run2 show ?thesis by simp
qed

section \<open>A SavedModel directory given on the command line\<close>

lemma makedirs_isdir:
  assumes "os_makedirs env p w = (Inr u, w1)"
  shows "isdir (fs w1) p"
proof -
  from assms have nofile: "\<not> list_ex (isfile (fs w)) (prefixes p)" and f: "fs w1 = add_dirs p (fs w)"
    by (auto simp add: os_makedirs_def syscall_def makedirs_act_def Let_def
        split: option.splits if_splits)
  show ?thesis
  proof (cases "p = []")
    case True
    then show ?thesis by (simp add: isdir_def lookup_path_def)
  next
    case False
    show ?thesis
    proof (cases "map_of (fs w) p")
      case None
      with False have "map_of (map (\<lambda>q. (q, Dir))
          (filter (\<lambda>q. q \<noteq> [] \<and> map_of (fs w) q = None) (prefixes p))) p = Some Dir"
        by (simp add: map_of_map_restrict)
      with None False f show ?thesis
        by (simp add: isdir_def lookup_path_def add_dirs_def map_add_def)
    next
      case (Some n)
      from nofile have "\<not> isfile (fs w) p" by (auto simp: list_ex_iff)
      with Some False have "n = Dir"
        by (cases n) (simp_all add: isfile_def lookup_path_def)
      with Some False f show ?thesis
        by (simp add: isdir_def lookup_path_def add_dirs_def map_add_def)
    qed
  qed
qed

lemma keeps_reroot: "keeps (\<lambda>f. isdir f P) (reroot_saved_model env P (P @ [s]))"
  unfolding reroot_saved_model_def Let_def os_path_isdir_def os_path_isfile_def
  by (intro keep) simp_all

lemma keeps_stage1: "keeps (\<lambda>f. isdir f P) (convert_onnx_to_saved_model env onnx P)"
  unfolding convert_onnx_to_saved_model_def try_onnx2tf_def fallback_onnx_tf_def
    install_mapping_shim_def Let_def os_path_isdir_def
  by (intro keep keeps_reroot)

lemma keeps_stage2: "keeps (\<lambda>f. isdir f P) (convert_saved_model_to_tflite env d out x y z)"
  unfolding convert_saved_model_to_tflite_def Let_def
  by (intro keep)

lemma keeps_run_conversion:
  "keeps (\<lambda>f. isdir f P) (run_conversion env a onnx out P None)"
  unfolding run_conversion_def option.case
  by (intro keep keeps_stage1 keeps_stage2)

lemma emits_reroot_below:
  "emits_only (\<lambda>ev. \<not> removes P ev) (reroot_saved_model env P (P @ [s]))"
  unfolding reroot_saved_model_def Let_def fs_calls
  by (intro emits) simp_all

lemma emits_run_conversion:
  "emits_only (\<lambda>ev. \<not> removes P ev) (run_conversion env a onnx out P None)"
  unfolding run_conversion_def option.case convert_onnx_to_saved_model_def try_onnx2tf_def
    fallback_onnx_tf_def install_mapping_shim_def convert_saved_model_to_tflite_def Let_def
    os_path_isdir_def os_makedirs_def write_file_def
  by (intro emits emits_reroot_below) simp_all

lemma main_reaches_kept_conversion:
  assumes kept: "arg_saved_model_dir a = Some d" "d \<noteq> []"
      and run: "main env a w = (Inr c, w')"
      and c: "c \<noteq> 1"
  shows "\<exists>pre w1. (\<forall>ev \<in> set pre. \<not> removes (abspath env d) ev)
           \<and> os_makedirs env (abspath env d) (w\<lparr>trace := trace w @ pre\<rparr>) = (Inr (), w1)
           \<and> run_conversion env a (abspath env (arg_onnx a)) (abspath env (arg_out a))
                (abspath env d) None w1 = (Inr c, w')"
proof -
  obtain pre where pre: "preflight env w = (Inr (), w\<lparr>trace := trace w @ pre\<rparr>)"
    and only: "\<forall>ev \<in> set pre. \<exists>s. ev = Print s"
    using preflight_run by blast
  let ?p = "abspath env (arg_onnx a)"
  let ?pre = "pre @ [Sys (Isfile ?p)]"
  let ?w0 = "w\<lparr>trace := trace w @ ?pre\<rparr>"
  have found: "isfile (fs w) ?p"
  proof (rule ccontr)
    assume "\<not> isfile (fs w) ?p"
    from main_not_found[OF this] run c show False by auto
  qed
  have "main env a w =
      bind (os_makedirs env (abspath env d)) (\<lambda>u.
        run_conversion env a ?p (abspath env (arg_out a)) (abspath env d) None) ?w0"
    using kept pre found
    by (simp add: main_def bind_def os_path_isfile_def query_def Let_def)
  with run obtain w1 where "os_makedirs env (abspath env d) ?w0 = (Inr (), w1)"
    and "run_conversion env a ?p (abspath env (arg_out a)) (abspath env d) None w1 = (Inr c, w')"
    by (auto simp add: bind_def split: prod.splits sum.splits)
  moreover from only have "\<forall>ev \<in> set ?pre. \<not> removes (abspath env d) ev" by auto
  ultimately show ?thesis by blast
qed

lemma children_nonempty_iff:
  "children f P \<noteq> [] \<longleftrightarrow> (\<exists>q \<in> fst ` set f. q \<noteq> [] \<and> butlast q = P)"
  by (force simp add: children_def filter_empty_conv)

lemma child_of_isfile:
  assumes "isfile f (P @ [x])"
  shows "children f P \<noteq> []"
proof -
  from assms obtain c where "map_of f (P @ [x]) = Some (File c)"
    by (auto simp add: isfile_def lookup_path_def split: option.splits node.splits)
  then have "P @ [x] \<in> fst ` set f" by (metis map_of_SomeD fst_conv image_eqI)
  then show ?thesis unfolding children_nonempty_iff by force
qed

lemma children_mono:
  assumes "fst ` set f \<subseteq> fst ` set g" and "children f P \<noteq> []"
  shows "children g P \<noteq> []"
proof -
  from assms(2) obtain q where "q \<in> fst ` set f" "q \<noteq> []" "butlast q = P"
    unfolding children_nonempty_iff by blast
  with assms(1) show ?thesis unfolding children_nonempty_iff by blast
qed

lemma keeps_children_makedirs: "keeps (\<lambda>f. children f P \<noteq> []) (os_makedirs env p)"
  unfolding os_makedirs_def
proof (rule keeps_syscall)
  fix f x f' assume "children f P \<noteq> []" and "makedirs_act p f = Inr (x, f')"
  then have "children f P \<noteq> []" and "fst ` set f \<subseteq> fst ` set f'"
    by (auto simp: makedirs_act_def add_dirs_def split: if_splits)
  then show "children f' P \<noteq> []" by (rule children_mono[rotated])
qed

lemma keeps_children_write_file: "keeps (\<lambda>f. children f P \<noteq> []) (write_file env p c)"
  unfolding write_file_def
proof (rule keeps_syscall)
  fix f x f' assume "children f P \<noteq> []" and "write_act p c f = Inr (x, f')"
  then have "children f P \<noteq> []" and "fst ` set f \<subseteq> fst ` set f'"
    by (force simp: write_act_def dom_update split: if_splits)+
  then show "children f' P \<noteq> []" by (rule children_mono[rotated])
qed

lemma keeps_children_stage2:
  "keeps (\<lambda>f. children f P \<noteq> []) (convert_saved_model_to_tflite env d out x y z)"
  unfolding convert_saved_model_to_tflite_def Let_def
  by (intro keep keeps_children_makedirs keeps_children_write_file)

lemma stage2_needs_content:
  assumes H: "\<forall>f. children f P = [] \<longrightarrow> from_saved_model env f P \<noteq> None"
      and run: "convert_saved_model_to_tflite env P out x y z w = (Inr u, w')"
  shows "children (fs w') P \<noteq> []"
proof -
  have "children (fs w) P \<noteq> []"
  proof (rule ccontr)
    assume "\<not> children (fs w) P \<noteq> []"
    with H obtain e where "from_saved_model env (fs w) P = Some e" by auto
    then have "\<exists>e' v. convert_saved_model_to_tflite env P out x y z w = (Inl e', v)"
      by (simp add: convert_saved_model_to_tflite_def bind_def import_module_def print_def
          emit_def call_read_def split: option.splits)
    with run show False by auto
  qed
  with keeps_children_stage2[of P env P out x y z] run show ?thesis
    unfolding keeps_def by (metis snd_conv)
qed

lemma run_conversion_success:
  assumes "run_conversion env a onnx out sm None w = (Inr 0, w')"
  shows "\<exists>wb wc. convert_saved_model_to_tflite env sm out
                    (arg_fp16 a) (arg_optimize a) (arg_allow_custom_ops a) wb = (Inr (), wc)
                \<and> fs w' = fs wc"
proof -
  let ?stage2 = "convert_saved_model_to_tflite env sm out
                    (arg_fp16 a) (arg_optimize a) (arg_allow_custom_ops a)"
  from assms obtain wb wc where "?stage2 wb = (Inr (), wc)"
    and "w' = wc\<lparr>trace := trace wc @ [Print ''[DONE] Conversion complete.'']\<rparr>"
    unfolding run_conversion_def
    by (auto simp add: bind_def try_finally_def try_except_def ret_def print_def emit_def
        split: prod.splits sum.splits option.splits if_splits)
  then show ?thesis by auto
qed

text \<open>
  Claim C4. For every run of the full converter with \<^verbatim>\<open>--saved-model-dir\<close> set to a
  path \<open>P\<close> that returns 0 or 2: \<open>P\<close> is a directory when \<^verbatim>\<open>main\<close> returns, and no call
  of the run removes or renames \<open>P\<close> or a directory above it; in particular
  \<^verbatim>\<open>tmpdir.cleanup()\<close> is never called. After a run that returns 0, \<open>P\<close> is non-empty.
  The script does not look into \<open>P\<close> itself: that \<open>P\<close> is non-empty after a success rests
  on \<^verbatim>\<open>tf.lite.TFLiteConverter.from_saved_model\<close>, which raises on a directory that
  holds no SavedModel, and so on an empty one. That behaviour of the library is the
  condition of the last conjunct.
\<close>

theorem kept_saved_model_dir:
  assumes kept: "arg_saved_model_dir a = Some d" "d \<noteq> []"
      and run: "main env a w = (Inr c, w')"
      and c: "c \<noteq> 1"
  shows "isdir (fs w') (abspath env d)
     \<and> (\<exists>evs. trace w' = trace w @ evs \<and> (\<forall>ev \<in> set evs. \<not> removes (abspath env d) ev))
     \<and> (c = 0 \<and> (\<forall>f. children f (abspath env d) = [] \<longrightarrow>
                      from_saved_model env f (abspath env d) \<noteq> None)
          \<longrightarrow> children (fs w') (abspath env d) \<noteq> [])"
proof -
  let ?P = "abspath env d"
  from main_reaches_kept_conversion[OF kept run c]
  obtain pre w1 where pre: "\<forall>ev \<in> set pre. \<not> removes ?P ev"
    and mk: "os_makedirs env ?P (w\<lparr>trace := trace w @ pre\<rparr>) = (Inr (), w1)"
    and rc: "run_conversion env a (abspath env (arg_onnx a)) (abspath env (arg_out a)) ?P None w1
               = (Inr c, w')"
    by blast
  from makedirs_isdir[OF mk] have "isdir (fs w1) ?P" .
  with keeps_run_conversion[of ?P env a] rc have dir: "isdir (fs w') ?P"
    unfolding keeps_def by (metis snd_conv)
  have "emits_only (\<lambda>ev. \<not> removes ?P ev) (os_makedirs env ?P)"
    unfolding os_makedirs_def by (intro emits) simp
  from emits_onlyD[OF this mk] obtain e1 where
    e1: "trace w1 = trace w @ pre @ e1" "list_all (\<lambda>ev. \<not> removes ?P ev) e1"
    by auto
  from emits_onlyD[OF emits_run_conversion rc] obtain e2 where
    e2: "trace w' = trace w1 @ e2" "list_all (\<lambda>ev. \<not> removes ?P ev) e2"
    by blast
  from pre e1 e2 have "trace w' = trace w @ (pre @ e1 @ e2)
      \<and> (\<forall>ev \<in> set (pre @ e1 @ e2). \<not> removes ?P ev)"
    by (auto simp: list_all_iff)
  then have tr: "\<exists>evs. trace w' = trace w @ evs \<and> (\<forall>ev \<in> set evs. \<not> removes ?P ev)"
    by blast
  have "children (fs w') ?P \<noteq> []"
    if "c = 0" and H: "\<forall>f. children f ?P = [] \<longrightarrow> from_saved_model env f ?P \<noteq> None"
  proof -
    from rc that(1) run_conversion_success obtain wb wc where
      "convert_saved_model_to_tflite env ?P (abspath env (arg_out a))
         (arg_fp16 a) (arg_optimize a) (arg_allow_custom_ops a) wb = (Inr (), wc)"
      and "fs w' = fs wc"
      by blast
    with stage2_needs_content[OF H] show ?thesis by simp
  qed
  with dir tr show ?thesis by blast
qed

theorem kept_saved_model_dir_witness:
  "main env_installed demo_args_keep demo_world
     = (Inr 0, snd (main env_installed demo_args_keep demo_world))
   \<and> isdir (fs (snd (main env_installed demo_args_keep demo_world))) (abspath env_installed ''sm'')
   \<and> children (fs (snd (main env_installed demo_args_keep demo_world))) (abspath env_installed ''sm'')
       \<noteq> []"
proof -
  have r0: "fst (main env_installed demo_args_keep demo_world) = Inr 0"
    by (simp add: run_defs env_installed_def demo_args_keep_def demo_args_def demo_world_def)
  then have run: "main env_installed demo_args_keep demo_world
     = (Inr 0, snd (main env_installed demo_args_keep demo_world))"
    by (metis surjective_pairing)
  have kept: "arg_saved_model_dir demo_args_keep = Some ''sm''" "''sm'' \<noteq> []"
    by (simp_all add: demo_args_keep_def)
  have H: "\<forall>f. children f (abspath env_installed ''sm'') = [] \<longrightarrow>
             from_saved_model env_installed f (abspath env_installed ''sm'') \<noteq> None"
    using child_of_isfile by (auto simp add: env_installed_def)
  from kept_saved_model_dir[OF kept run] H run show ?thesis by simp
qed

section \<open>The operator tally of the graph inspector\<close>

lemma printed_ops_append [simp]: "printed_ops (xs @ ys) = printed_ops xs @ printed_ops ys"
  by (induction xs rule: printed_ops.induct) simp_all

lemma printed_ops_prints [simp]: "printed_ops (map Print msgs) = []"
  by (induction msgs) simp_all

lemma printed_ops_lines [simp]: "printed_ops (map (\<lambda>(op, c). PrintOp op c) xs) = xs"
  by (induction xs) auto

lemma foreach_emit:
  "foreach xs (\<lambda>x. emit (g x)) w = (Inr (), w\<lparr>trace := trace w @ map g xs\<rparr>)"
  by (induction xs arbitrary: w) (simp_all add: ret_def bind_def emit_def)

lemma report_operators_run:
  "\<exists>evs. report_operators graph_nodes op_types w = (Inr (), w\<lparr>trace := trace w @ evs\<rparr>)
        \<and> printed_ops evs = top_operators op_types"
proof -
  let ?head = "[Print ''[INFO] Number of nodes of the model'',
                Print ''[INFO] Number of unique operator types'',
                Print ''[INFO] Top 20 operators:'']
               @ map (\<lambda>(op, c). PrintOp op c) (top_operators op_types)"
  let ?p = "problematic_operators op_types"
  let ?tail = "if ?p \<noteq> []
               then Print ''[WARN] Potentially unsupported operators for NNAPI:''
                    # map (\<lambda>op. Print (''  - '' @ op)) ?p
               else [Print ''[INFO] No obvious GridSample or custom ops detected'',
                     Print ''[INFO] Model uses standard TF ops (Conv2D, DepthwiseConv2D, etc.)'']"
  have l1: "foreach (top_operators op_types) (\<lambda>(op, count). emit (PrintOp op count)) v
         = (Inr (), v\<lparr>trace := trace v @ map (\<lambda>(op, c). PrintOp op c) (top_operators op_types)\<rparr>)" for v
    using foreach_emit[of "top_operators op_types" "\<lambda>(op, c). PrintOp op c" v]
    by (simp add: case_prod_unfold)
  have "report_operators graph_nodes op_types w = (Inr (), w\<lparr>trace := trace w @ ?head @ ?tail\<rparr>)"
    by (simp add: report_operators_def bind_def print_def emit_def l1 foreach_emit Let_def)
  moreover have "printed_ops ?tail = []"
  proof (cases "?p \<noteq> []")
    case True
    then have "?tail = map Print (''[WARN] Potentially unsupported operators for NNAPI:''
                                  # map (\<lambda>op. ''  - '' @ op) ?p)"
      by simp
    then show ?thesis by (simp only: printed_ops_prints)
  next
    case False
    then show ?thesis by simp
  qed
  then have "printed_ops (?head @ ?tail) = top_operators op_types" by simp
  ultimately show ?thesis by blast
qed

lemma inspect_saved_model_run:
  assumes "import_result env (onnx_mapping w) ''tensorflow'' = None"
      and "saved_model_load env (fs w) (abspath env model_path) = Inr m"
      and "map_of (signatures m) ''serving_default'' = Some cf"
  shows "\<exists>evs. inspect_saved_model env model_path w
             = (Inr (Some (count_ops (graph_def_node cf))), w\<lparr>trace := trace w @ evs\<rparr>)
          \<and> printed_ops evs = top_operators (count_ops (graph_def_node cf))"
proof -
  let ?w1 = "w\<lparr>trace := trace w @ [Import ''tensorflow'',
                Print (''[INFO] Inspecting SavedModel at '' @ model_path),
                Call ''tf.saved_model.load'']\<rparr>"
  obtain evs where r: "report_operators (graph_def_node cf) (count_ops (graph_def_node cf)) ?w1
                        = (Inr (), ?w1\<lparr>trace := trace ?w1 @ evs\<rparr>)"
    and p: "printed_ops evs = top_operators (count_ops (graph_def_node cf))"
    using report_operators_run by blast
  let ?evs = "[Import ''tensorflow'', Print (''[INFO] Inspecting SavedModel at '' @ model_path),
               Call ''tf.saved_model.load''] @ evs"
  have "inspect_saved_model env model_path w
          = (Inr (Some (count_ops (graph_def_node cf))), w\<lparr>trace := trace w @ ?evs\<rparr>)"
    using assms r
    by (simp add: inspect_saved_model_def try_except_def bind_def import_module_def print_def
        emit_def call_read_def dict_getitem_def ret_def Let_def)
  moreover have "printed_ops ?evs = top_operators (count_ops (graph_def_node cf))"
    using p by simp
  ultimately show ?thesis by blast
qed

lemma tally_fold:
  "map_of (fold (\<lambda>op d. AList.update op ((case map_of d op of None \<Rightarrow> 0 | Some c \<Rightarrow> c) + 1) d) ns d0) x
     = (if x \<in> set ns
        then Some ((case map_of d0 x of None \<Rightarrow> 0 | Some c \<Rightarrow> c) + int (count_list ns x))
        else map_of d0 x)"
proof (induction ns arbitrary: d0)
  case Nil
  then show ?case by simp
next
  case (Cons n ns)
  show ?case
    by (simp add: Cons.IH update_conv' count_list_0_iff split: option.splits)
qed

lemma count_ops_lookup:
  "map_of (count_ops ns) x = (if x \<in> set ns then Some (int (count_list ns x)) else None)"
  by (simp add: count_ops_def tally_fold)

lemma tally_fold_distinct:
  "distinct (map fst d0) \<Longrightarrow>
   distinct (map fst (fold (\<lambda>op d. AList.update op ((case map_of d op of None \<Rightarrow> 0 | Some c \<Rightarrow> c) + 1) d) ns d0))"
  by (induction ns arbitrary: d0) (simp_all add: distinct_update)

lemma count_ops_distinct: "distinct (map fst (count_ops ns))"
  by (simp add: count_ops_def tally_fold_distinct)

lemma top_operators_descending: "sorted (map (\<lambda>x. - snd x) (top_operators d))"
  unfolding top_operators_def
  by (simp add: take_map[symmetric])

lemma tally_two_and_one:
  assumes "A \<noteq> B" and "ns = [A, A, B] \<or> ns = [A, B, A] \<or> ns = [B, A, A]"
  shows "set (count_ops ns) = {(A, 2), (B, 1)}"
    and "top_operators (count_ops ns) = [(A, 2), (B, 1)]"
  using assms by (auto simp add: count_ops_def top_operators_def)

text \<open>
  Claim C5. When TensorFlow is importable and the SavedModel loads with a
  \<^verbatim>\<open>serving_default\<close> signature, \<^verbatim>\<open>inspect_saved_model\<close> returns the tally of that
  signature's graph nodes and prints, in order, the first 20 entries of the tally sorted
  by descending count. The tally has one entry per operator type and maps each operator
  type to the exact number of nodes with that type, and no other key. For a graph whose
  node types are two \<open>A\<close> and one \<open>B\<close>, in whatever order, the tally is
  \<open>{A: 2, B: 1}\<close> and the listing is \<open>A\<close> with 2, then \<open>B\<close> with 1.
\<close>

theorem operator_tally:
  assumes "import_result env (onnx_mapping w) ''tensorflow'' = None"
      and "saved_model_load env (fs w) (abspath env model_path) = Inr m"
      and "map_of (signatures m) ''serving_default'' = Some cf"
  shows "(\<exists>evs. inspect_saved_model env model_path w
             = (Inr (Some (count_ops (graph_def_node cf))), w\<lparr>trace := trace w @ evs\<rparr>)
          \<and> printed_ops evs = top_operators (count_ops (graph_def_node cf)))
     \<and> (\<forall>op. map_of (count_ops (graph_def_node cf)) op
             = (if op \<in> set (graph_def_node cf)
                then Some (int (count_list (graph_def_node cf) op)) else None))
     \<and> distinct (map fst (count_ops (graph_def_node cf)))
     \<and> sorted (map (\<lambda>x. - snd x) (top_operators (count_ops (graph_def_node cf))))
     \<and> (A \<noteq> B \<and> (graph_def_node cf = [A, A, B] \<or> graph_def_node cf = [A, B, A]
                  \<or> graph_def_node cf = [B, A, A]) \<longrightarrow>
          set (count_ops (graph_def_node cf)) = {(A, 2), (B, 1)}
          \<and> top_operators (count_ops (graph_def_node cf)) = [(A, 2), (B, 1)])"
proof (intro conjI allI impI)
  show "\<exists>evs. inspect_saved_model env model_path w
             = (Inr (Some (count_ops (graph_def_node cf))), w\<lparr>trace := trace w @ evs\<rparr>)
          \<and> printed_ops evs = top_operators (count_ops (graph_def_node cf))"
    by (rule inspect_saved_model_run[OF assms])
  show "map_of (count_ops (graph_def_node cf)) op
             = (if op \<in> set (graph_def_node cf)
                then Some (int (count_list (graph_def_node cf) op)) else None)" for op
    by (rule count_ops_lookup)
  show "distinct (map fst (count_ops (graph_def_node cf)))"
    by (rule count_ops_distinct)
  show "sorted (map (\<lambda>x. - snd x) (top_operators (count_ops (graph_def_node cf))))"
    by (rule top_operators_descending)
  assume ab: "A \<noteq> B \<and> (graph_def_node cf = [A, A, B] \<or> graph_def_node cf = [A, B, A]
                  \<or> graph_def_node cf = [B, A, A])"
  then have "A \<noteq> B" and o: "graph_def_node cf = [A, A, B] \<or> graph_def_node cf = [A, B, A]
                  \<or> graph_def_node cf = [B, A, A]"
    by simp_all
  from tally_two_and_one(1)[OF this] show "set (count_ops (graph_def_node cf)) = {(A, 2), (B, 1)}" .
  from tally_two_and_one(2)[OF \<open>A \<noteq> B\<close> o]
  show "top_operators (count_ops (graph_def_node cf)) = [(A, 2), (B, 1)]" .
qed

theorem operator_tally_witness:
  "(\<exists>evs. inspect_saved_model env_installed ''tmp'' demo_world
             = (Inr (Some (count_ops [''Conv2D'', ''Conv2D'', ''Relu''])),
                demo_world\<lparr>trace := trace demo_world @ evs\<rparr>)
          \<and> printed_ops evs = [(''Conv2D'', 2), (''Relu'', 1)])
   \<and> set (count_ops [''Conv2D'', ''Conv2D'', ''Relu'']) = {(''Conv2D'', 2), (''Relu'', 1)}"
proof -
  let ?cf = "\<lparr>graph_def_node = [''Conv2D'', ''Conv2D'', ''Relu''],
          structured_input_signature = ''x0, x1, time'',
          structured_outputs = ''image''\<rparr>"
  have a: "import_result env_installed (onnx_mapping demo_world) ''tensorflow'' = None"
    by (simp add: env_installed_def)
  have b: "saved_model_load env_installed (fs demo_world) (abspath env_installed ''tmp'') = Inr demo_module"
    by (simp add: env_installed_def demo_world_def isdir_def lookup_path_def)
  have c: "map_of (signatures demo_module) ''serving_default'' = Some ?cf"
    by (simp add: demo_module_def)
  have d: "''Conv2D'' \<noteq> ''Relu''
      \<and> (graph_def_node ?cf = [''Conv2D'', ''Conv2D'', ''Relu'']
         \<or> graph_def_node ?cf = [''Conv2D'', ''Relu'', ''Conv2D'']
         \<or> graph_def_node ?cf = [''Relu'', ''Conv2D'', ''Conv2D''])"
    by simp
  note t = operator_tally[OF a b c, of "''Conv2D''" "''Relu''"]
  from t d have top: "top_operators (count_ops (graph_def_node ?cf)) = [(''Conv2D'', 2), (''Relu'', 1)]"
    and tally: "set (count_ops (graph_def_node ?cf)) = {(''Conv2D'', 2), (''Relu'', 1)}"
    by blast+
  from t obtain evs where
    "inspect_saved_model env_installed ''tmp'' demo_world
       = (Inr (Some (count_ops (graph_def_node ?cf))), demo_world\<lparr>trace := trace demo_world @ evs\<rparr>)"
    and "printed_ops evs = top_operators (count_ops (graph_def_node ?cf))"
    by blast
  with top tally show ?thesis by auto
qed

section \<open>The simplifier\<close>

lemma printed_shapes_append [simp]:
  "printed_shapes (xs @ ys) = printed_shapes xs @ printed_shapes ys"
  by (induction xs rule: printed_shapes.induct) simp_all









lemma keeps_case_prod [keep]:
  "(\<And>a b. keeps J (f a b)) \<Longrightarrow> keeps J (case p of (a, b) \<Rightarrow> f a b)"
  by (cases p) simp










text \<open>
  Claim C8 says that no diagnostic keeps the simplifier from writing its output. Nine of
  its lines start with a check mark or a warning sign, and the first of them comes before
  \<^verbatim>\<open>onnx.save\<close> on every path: in a handler of the \<^verbatim>\<open>try\<close> around onnx-simplifier
  (lines 38 and 40), inside that \<^verbatim>\<open>try\<close> (lines 33 and 36, whose
  \<^verbatim>\<open>UnicodeEncodeError\<close> the handler of line 39 catches and reports with line 40), or
  right after it (lines 53 and 60). On a standard output in cp1252, as a redirected
  output has on Windows, \<^verbatim>\<open>print\<close> raises on that line: the model has been loaded,
  \<^verbatim>\<open>simplify_model\<close> ends with the \<^verbatim>\<open>UnicodeEncodeError\<close>, \<^verbatim>\<open>onnx.save\<close> is never
  called and nothing is written to the output path, whether onnx-simplifier is missing
  or installed.
\<close>

theorem simplifier_blocked_by_diagnostic:
  "onnx_load env_cp1252 (fs demo_world) (abspath env_cp1252 ''model.onnx'') = Inr demo_model
   \<and> simplify_model env_cp1252 ''model.onnx'' ''out.onnx'' demo_world
       = (Inl (UnicodeEncodeError ''codec cannot encode character''),
          demo_world\<lparr>trace := [Print ''Loading model: model.onnx'', Call ''onnx.load'',
                                 Import ''onnxsim'']\<rparr>)
   \<and> simplify_model (env_installed\<lparr>stdout_encodes := (\<lambda>mk. False)\<rparr>)
         ''model.onnx'' ''out.onnx'' demo_world
       = (Inl (UnicodeEncodeError ''codec cannot encode character''),
          demo_world\<lparr>trace := [Print ''Loading model: model.onnx'', Call ''onnx.load'',
                                 Import ''onnxsim'', Print ''Running onnx-simplifier...'',
                                 Call ''onnxsim.simplify'']\<rparr>)
   \<and> \<not> path_exists (fs demo_world) (abspath env_cp1252 ''out.onnx'')"
  by (simp add: simplify_model_def run_onnxsim_def print_marked_def
      bind_def ret_def raise_def try_except_def emit_def print_def call_read_def import_module_def
      isfile_def path_exists_def lookup_path_def
      env_cp1252_def env_missing_def env_installed_def demo_world_def)

section \<open>The acquirers\<close>














end
